theory Spec2Isabelle
  imports Main
begin

section \<open>Go values and formatting\<close>

text \<open>
  The two programs of the repository are \<^verbatim>\<open>main.go\<close> (variant A: the field
  \<^verbatim>\<open>greeting\<close> resolves to a string) and a second \<^verbatim>\<open>package main\<close> file
  (variant B: it resolves to a \<^verbatim>\<open>GreetingResponse\<close> with text and flowers).
  Definitions that exist in both carry the suffix \<open>_A\<close> or \<open>_B\<close>.

  Go's \<^verbatim>\<open>int\<close> is modelled by \<open>int\<close>: the only arithmetic the programs do on
  an \<^verbatim>\<open>int\<close> is \<^verbatim>\<open>id-1\<close>, which runs under the guard \<^verbatim>\<open>id >= 1\<close> and so never
  wraps around. Go strings are byte sequences, so a \<open>string\<close> here holds the UTF-8
  bytes of the source literal.
\<close>

text \<open>
  A dynamic value, as \<^verbatim>\<open>interface{}\<close> holds it. \<open>GoFloat64\<close> is given by a mantissa
  and an exponent; no function of the programs inspects it.
\<close>

datatype dyn =
    GoNil
  | GoInt int
  | GoFloat64 int int
  | GoString string
  | GoBool bool
  | GoList "dyn list"

text \<open>The comma-ok type assertion \<^verbatim>\<open>v.(int)\<close>: it succeeds on the dynamic type
  \<^verbatim>\<open>int\<close> alone.\<close>

fun assert_int :: "dyn \<Rightarrow> int option" where
  "assert_int (GoInt i) = Some i"
| "assert_int _ = None"

text \<open>Reading a \<^verbatim>\<open>map[string]interface{}\<close>: a missing key reads as \<^verbatim>\<open>nil\<close>.\<close>

definition map_index :: "(string \<Rightarrow> dyn option) \<Rightarrow> string \<Rightarrow> dyn" where
  "map_index m k = (case m k of None \<Rightarrow> GoNil | Some v \<Rightarrow> v)"

text \<open>The verb \<^verbatim>\<open>%d\<close> of \<^verbatim>\<open>fmt\<close> on an \<^verbatim>\<open>int\<close>: a minus sign for a negative
  number, then the decimal digits, most significant first, no leading zero.\<close>

definition digit :: "nat \<Rightarrow> char" where
  "digit d = ''0123456789'' ! d"

fun utoa :: "nat \<Rightarrow> string" where
  "utoa n = (if n < 10 then [digit n] else utoa (n div 10) @ [digit (n mod 10)])"

definition fmt_d :: "int \<Rightarrow> string" where
  "fmt_d i = (if i < 0 then CHR ''-'' # utoa (nat (- i)) else utoa (nat i))"

text \<open>Reading a decimal numeral back, to say what "decimal representation" means.\<close>

definition digit_val :: "char \<Rightarrow> nat" where
  "digit_val c = of_char c - 48"

definition dec_val :: "string \<Rightarrow> nat" where
  "dec_val s = foldl (\<lambda>a c. 10 * a + digit_val c) 0 s"

definition read_d :: "string \<Rightarrow> int" where
  "read_d s = (case s of [] \<Rightarrow> 0
     | c # cs \<Rightarrow> if c = CHR ''-'' then - int (dec_val cs) else int (dec_val s))"

section \<open>The Content Store\<close>

text \<open>The ten greetings are the same literals in both variants.\<close>

definition greeting_1 :: string where \<comment> \<open>main.go line 21, UTF-8 bytes of the literal\<close>
  "greeting_1 =
    [CHR 0xD0, CHR 0xA1, CHR 0x20, CHR 0x38, CHR 0x20, CHR 0xD0, CHR 0x9C, CHR 0xD0,
     CHR 0xB0, CHR 0xD1, CHR 0x80, CHR 0xD1, CHR 0x82, CHR 0xD0, CHR 0xB0, CHR 0x21,
     CHR 0x20, CHR 0xD0, CHR 0x9F, CHR 0xD1, CHR 0x83, CHR 0xD1, CHR 0x81, CHR 0xD1,
     CHR 0x82, CHR 0xD1, CHR 0x8C, CHR 0x20, CHR 0xD0, CHR 0xBA, CHR 0xD0, CHR 0xB0,
     CHR 0xD0, CHR 0xB6, CHR 0xD0, CHR 0xB4, CHR 0xD1, CHR 0x8B, CHR 0xD0, CHR 0xB9,
     CHR 0x20, CHR 0xD0, CHR 0xB4, CHR 0xD0, CHR 0xB5, CHR 0xD0, CHR 0xBD, CHR 0xD1,
     CHR 0x8C, CHR 0x20, CHR 0xD0, CHR 0xB4, CHR 0xD0, CHR 0xB0, CHR 0xD1, CHR 0x80,
     CHR 0xD0, CHR 0xB8, CHR 0xD1, CHR 0x82, CHR 0x20, CHR 0xD1, CHR 0x83, CHR 0xD0,
     CHR 0xBB, CHR 0xD1, CHR 0x8B, CHR 0xD0, CHR 0xB1, CHR 0xD0, CHR 0xBA, CHR 0xD0,
     CHR 0xB8, CHR 0x2C, CHR 0x20, CHR 0xD1, CHR 0x80, CHR 0xD0, CHR 0xB0, CHR 0xD0,
     CHR 0xB4, CHR 0xD0, CHR 0xBE, CHR 0xD1, CHR 0x81, CHR 0xD1, CHR 0x82, CHR 0xD1,
     CHR 0x8C, CHR 0x20, CHR 0xD0, CHR 0xB8, CHR 0x20, CHR 0xD0, CHR 0xB2, CHR 0xD0,
     CHR 0xB4, CHR 0xD0, CHR 0xBE, CHR 0xD1, CHR 0x85, CHR 0xD0, CHR 0xBD, CHR 0xD0,
     CHR 0xBE, CHR 0xD0, CHR 0xB2, CHR 0xD0, CHR 0xB5, CHR 0xD0, CHR 0xBD, CHR 0xD0,
     CHR 0xB8, CHR 0xD0, CHR 0xB5, CHR 0x21]"

definition greeting_2 :: string where \<comment> \<open>main.go line 22, UTF-8 bytes of the literal\<close>
  "greeting_2 =
    [CHR 0xD0, CHR 0x9F, CHR 0xD0, CHR 0xBE, CHR 0xD0, CHR 0xB7, CHR 0xD0, CHR 0xB4,
     CHR 0xD1, CHR 0x80, CHR 0xD0, CHR 0xB0, CHR 0xD0, CHR 0xB2, CHR 0xD0, CHR 0xBB,
     CHR 0xD1, CHR 0x8F, CHR 0xD1, CHR 0x8E, CHR 0x20, CHR 0xD1, CHR 0x81, CHR 0x20,
     CHR 0xD0, CHR 0x9C, CHR 0xD0, CHR 0xB5, CHR 0xD0, CHR 0xB6, CHR 0xD0, CHR 0xB4,
     CHR 0xD1, CHR 0x83, CHR 0xD0, CHR 0xBD, CHR 0xD0, CHR 0xB0, CHR 0xD1, CHR 0x80,
     CHR 0xD0, CHR 0xBE, CHR 0xD0, CHR 0xB4, CHR 0xD0, CHR 0xBD, CHR 0xD1, CHR 0x8B,
     CHR 0xD0, CHR 0xBC, CHR 0x20, CHR 0xD0, CHR 0xB6, CHR 0xD0, CHR 0xB5, CHR 0xD0,
     CHR 0xBD, CHR 0xD1, CHR 0x81, CHR 0xD0, CHR 0xBA, CHR 0xD0, CHR 0xB8, CHR 0xD0,
     CHR 0xBC, CHR 0x20, CHR 0xD0, CHR 0xB4, CHR 0xD0, CHR 0xBD, CHR 0xD1, CHR 0x91,
     CHR 0xD0, CHR 0xBC, CHR 0x21, CHR 0x20, CHR 0xD0, CHR 0x96, CHR 0xD0, CHR 0xB5,
     CHR 0xD0, CHR 0xBB, CHR 0xD0, CHR 0xB0, CHR 0xD1, CHR 0x8E, CHR 0x20, CHR 0xD0,
     CHR 0xB2, CHR 0xD0, CHR 0xB5, CHR 0xD1, CHR 0x81, CHR 0xD0, CHR 0xB5, CHR 0xD0,
     CHR 0xBD, CHR 0xD0, CHR 0xBD, CHR 0xD0, CHR 0xB5, CHR 0xD0, CHR 0xB3, CHR 0xD0,
     CHR 0xBE, CHR 0x20, CHR 0xD0, CHR 0xBD, CHR 0xD0, CHR 0xB0, CHR 0xD1, CHR 0x81,
     CHR 0xD1, CHR 0x82, CHR 0xD1, CHR 0x80, CHR 0xD0, CHR 0xBE, CHR 0xD0, CHR 0xB5,
     CHR 0xD0, CHR 0xBD, CHR 0xD0, CHR 0xB8, CHR 0xD1, CHR 0x8F, CHR 0x2C, CHR 0x20,
     CHR 0xD0, CHR 0xBB, CHR 0xD1, CHR 0x8E, CHR 0xD0, CHR 0xB1, CHR 0xD0, CHR 0xB2,
     CHR 0xD0, CHR 0xB8, CHR 0x20, CHR 0xD0, CHR 0xB8, CHR 0x20, CHR 0xD1, CHR 0x81,
     CHR 0xD1, CHR 0x87, CHR 0xD0, CHR 0xB0, CHR 0xD1, CHR 0x81, CHR 0xD1, CHR 0x82,
     CHR 0xD1, CHR 0x8C, CHR 0xD1, CHR 0x8F, CHR 0x21]"

definition greeting_3 :: string where \<comment> \<open>main.go line 23, UTF-8 bytes of the literal\<close>
  "greeting_3 =
    [CHR 0xD0, CHR 0xA1, CHR 0x20, CHR 0x38, CHR 0x20, CHR 0xD0, CHR 0x9C, CHR 0xD0,
     CHR 0xB0, CHR 0xD1, CHR 0x80, CHR 0xD1, CHR 0x82, CHR 0xD0, CHR 0xB0, CHR 0x21,
     CHR 0x20, CHR 0xD0, CHR 0x9E, CHR 0xD1, CHR 0x81, CHR 0xD1, CHR 0x82, CHR 0xD0,
     CHR 0xB0, CHR 0xD0, CHR 0xB2, CHR 0xD0, CHR 0xB0, CHR 0xD0, CHR 0xB9, CHR 0xD1,
     CHR 0x82, CHR 0xD0, CHR 0xB5, CHR 0xD1, CHR 0x81, CHR 0xD1, CHR 0x8C, CHR 0x20,
     CHR 0xD1, CHR 0x82, CHR 0xD0, CHR 0xB0, CHR 0xD0, CHR 0xBA, CHR 0xD0, CHR 0xBE,
     CHR 0xD0, CHR 0xB9, CHR 0x20, CHR 0xD0, CHR 0xB6, CHR 0xD0, CHR 0xB5, CHR 0x20,
     CHR 0xD0, CHR 0xBF, CHR 0xD1, CHR 0x80, CHR 0xD0, CHR 0xB5, CHR 0xD0, CHR 0xBA,
     CHR 0xD1, CHR 0x80, CHR 0xD0, CHR 0xB0, CHR 0xD1, CHR 0x81, CHR 0xD0, CHR 0xBD,
     CHR 0xD0, CHR 0xBE, CHR 0xD0, CHR 0xB9, CHR 0x2C, CHR 0x20, CHR 0xD0, CHR 0xBD,
     CHR 0xD0, CHR 0xB5, CHR 0xD0, CHR 0xB6, CHR 0xD0, CHR 0xBD, CHR 0xD0, CHR 0xBE,
     CHR 0xD0, CHR 0xB9, CHR 0x20, CHR 0xD0, CHR 0xB8, CHR 0x20, CHR 0xD1, CHR 0x83,
     CHR 0xD0, CHR 0xB4, CHR 0xD0, CHR 0xB8, CHR 0xD0, CHR 0xB2, CHR 0xD0, CHR 0xB8,
     CHR 0xD1, CHR 0x82, CHR 0xD0, CHR 0xB5, CHR 0xD0, CHR 0xBB, CHR 0xD1, CHR 0x8C,
     CHR 0xD0, CHR 0xBD, CHR 0xD0, CHR 0xBE, CHR 0xD0, CHR 0xB9, CHR 0x21]"

definition greeting_4 :: string where \<comment> \<open>main.go line 24, UTF-8 bytes of the literal\<close>
  "greeting_4 =
    [CHR 0xD0, CHR 0x9F, CHR 0xD1, CHR 0x83, CHR 0xD1, CHR 0x81, CHR 0xD1, CHR 0x82,
     CHR 0xD1, CHR 0x8C, CHR 0x20, CHR 0xD0, CHR 0xB2, CHR 0x20, CHR 0xD1, CHR 0x8D,
     CHR 0xD1, CHR 0x82, CHR 0xD0, CHR 0xBE, CHR 0xD1, CHR 0x82, CHR 0x20, CHR 0xD0,
     CHR 0xB4, CHR 0xD0, CHR 0xB5, CHR 0xD0, CHR 0xBD, CHR 0xD1, CHR 0x8C, CHR 0x20,
     CHR 0xD1, CHR 0x81, CHR 0xD0, CHR 0xB1, CHR 0xD1, CHR 0x83, CHR 0xD0, CHR 0xB4,
     CHR 0xD1, CHR 0x83, CHR 0xD1, CHR 0x82, CHR 0xD1, CHR 0x81, CHR 0xD1, CHR 0x8F,
     CHR 0x20, CHR 0xD1, CHR 0x81, CHR 0xD0, CHR 0xB0, CHR 0xD0, CHR 0xBC, CHR 0xD1,
     CHR 0x8B, CHR 0xD0, CHR 0xB5, CHR 0x20, CHR 0xD0, CHR 0xB7, CHR 0xD0, CHR 0xB0,
     CHR 0xD0, CHR 0xB2, CHR 0xD0, CHR 0xB5, CHR 0xD1, CHR 0x82, CHR 0xD0, CHR 0xBD,
     CHR 0xD1, CHR 0x8B, CHR 0xD0, CHR 0xB5, CHR 0x20, CHR 0xD0, CHR 0xBC, CHR 0xD0,
     CHR 0xB5, CHR 0xD1, CHR 0x87, CHR 0xD1, CHR 0x82, CHR 0xD1, CHR 0x8B, CHR 0x2E,
     CHR 0x20, CHR 0xD0, CHR 0xA1, CHR 0x20, CHR 0xD0, CHR 0xBF, CHR 0xD1, CHR 0x80,
     CHR 0xD0, CHR 0xB0, CHR 0xD0, CHR 0xB7, CHR 0xD0, CHR 0xB4, CHR 0xD0, CHR 0xBD,
     CHR 0xD0, CHR 0xB8, CHR 0xD0, CHR 0xBA, CHR 0xD0, CHR 0xBE, CHR 0xD0, CHR 0xBC,
     CHR 0x20, CHR 0xD0, CHR 0xB2, CHR 0xD0, CHR 0xB5, CHR 0xD1, CHR 0x81, CHR 0xD0,
     CHR 0xBD, CHR 0xD1, CHR 0x8B, CHR 0x21]"

definition greeting_5 :: string where \<comment> \<open>main.go line 25, UTF-8 bytes of the literal\<close>
  "greeting_5 =
    [CHR 0xD0, CHR 0xA1, CHR 0x20, CHR 0x38, CHR 0x20, CHR 0xD0, CHR 0x9C, CHR 0xD0,
     CHR 0xB0, CHR 0xD1, CHR 0x80, CHR 0xD1, CHR 0x82, CHR 0xD0, CHR 0xB0, CHR 0x21,
     CHR 0x20, CHR 0xD0, CHR 0x96, CHR 0xD0, CHR 0xB5, CHR 0xD0, CHR 0xBB, CHR 0xD0,
     CHR 0xB0, CHR 0xD1, CHR 0x8E, CHR 0x20, CHR 0xD0, CHR 0xBC, CHR 0xD0, CHR 0xBE,
     CHR 0xD1, CHR 0x80, CHR 0xD0, CHR 0xB5, CHR 0x20, CHR 0xD1, CHR 0x86, CHR 0xD0,
     CHR 0xB2, CHR 0xD0, CHR 0xB5, CHR 0xD1, CHR 0x82, CHR 0xD0, CHR 0xBE, CHR 0xD0,
     CHR 0xB2, CHR 0x2C, CHR 0x20, CHR 0xD1, CHR 0x82, CHR 0xD0, CHR 0xB5, CHR 0xD0,
     CHR 0xBF, CHR 0xD0, CHR 0xBB, CHR 0xD0, CHR 0xB0, CHR 0x2C, CHR 0x20, CHR 0xD1,
     CHR 0x83, CHR 0xD1, CHR 0x8E, CHR 0xD1, CHR 0x82, CHR 0xD0, CHR 0xB0, CHR 0x20,
     CHR 0xD0, CHR 0xB8, CHR 0x20, CHR 0xD0, CHR 0xBF, CHR 0xD1, CHR 0x80, CHR 0xD0,
     CHR 0xB8, CHR 0xD1, CHR 0x8F, CHR 0xD1, CHR 0x82, CHR 0xD0, CHR 0xBD, CHR 0xD1,
     CHR 0x8B, CHR 0xD1, CHR 0x85, CHR 0x20, CHR 0xD1, CHR 0x81, CHR 0xD1, CHR 0x8E,
     CHR 0xD1, CHR 0x80, CHR 0xD0, CHR 0xBF, CHR 0xD1, CHR 0x80, CHR 0xD0, CHR 0xB8,
     CHR 0xD0, CHR 0xB7, CHR 0xD0, CHR 0xBE, CHR 0xD0, CHR 0xB2, CHR 0x21]"

definition greeting_6 :: string where \<comment> \<open>main.go line 26, UTF-8 bytes of the literal\<close>
  "greeting_6 =
    [CHR 0xD0, CHR 0x9F, CHR 0xD0, CHR 0xBE, CHR 0xD0, CHR 0xB7, CHR 0xD0, CHR 0xB4,
     CHR 0xD1, CHR 0x80, CHR 0xD0, CHR 0xB0, CHR 0xD0, CHR 0xB2, CHR 0xD0, CHR 0xBB,
     CHR 0xD1, CHR 0x8F, CHR 0xD1, CHR 0x8E, CHR 0x20, CHR 0xD1, CHR 0x81, CHR 0x20,
     CHR 0xD0, CHR 0xB4, CHR 0xD0, CHR 0xBD, CHR 0xD1, CHR 0x91, CHR 0xD0, CHR 0xBC,
     CHR 0x20, CHR 0xD0, CHR 0xBE, CHR 0xD1, CHR 0x87, CHR 0xD0, CHR 0xB0, CHR 0xD1,
     CHR 0x80, CHR 0xD0, CHR 0xBE, CHR 0xD0, CHR 0xB2, CHR 0xD0, CHR 0xB0, CHR 0xD0,
     CHR 0xBD, CHR 0xD0, CHR 0xB8, CHR 0xD1, CHR 0x8F, CHR 0x21, CHR 0x20, CHR 0xD0,
     CHR 0x91, CHR 0xD1, CHR 0x83, CHR 0xD0, CHR 0xB4, CHR 0xD1, CHR 0x8C, CHR 0xD1,
     CHR 0x82, CHR 0xD0, CHR 0xB5, CHR 0x20, CHR 0xD1, CHR 0x81, CHR 0xD1, CHR 0x87,
     CHR 0xD0, CHR 0xB0, CHR 0xD1, CHR 0x81, CHR 0xD1, CHR 0x82, CHR 0xD0, CHR 0xBB,
     CHR 0xD0, CHR 0xB8, CHR 0xD0, CHR 0xB2, CHR 0xD1, CHR 0x8B, CHR 0x2C, CHR 0x20,
     CHR 0xD0, CHR 0xBB, CHR 0xD1, CHR 0x8E, CHR 0xD0, CHR 0xB1, CHR 0xD0, CHR 0xB8,
     CHR 0xD0, CHR 0xBC, CHR 0xD1, CHR 0x8B, CHR 0x20, CHR 0xD0, CHR 0xB8, CHR 0x20,
     CHR 0xD0, CHR 0xBD, CHR 0xD0, CHR 0xB5, CHR 0xD0, CHR 0xBF, CHR 0xD0, CHR 0xBE,
     CHR 0xD0, CHR 0xB2, CHR 0xD1, CHR 0x82, CHR 0xD0, CHR 0xBE, CHR 0xD1, CHR 0x80,
     CHR 0xD0, CHR 0xB8, CHR 0xD0, CHR 0xBC, CHR 0xD1, CHR 0x8B, CHR 0x21]"

definition greeting_7 :: string where \<comment> \<open>main.go line 27, UTF-8 bytes of the literal\<close>
  "greeting_7 =
    [CHR 0xD0, CHR 0xA1, CHR 0x20, CHR 0xD0, CHR 0x9C, CHR 0xD0, CHR 0xB5, CHR 0xD0,
     CHR 0xB6, CHR 0xD0, CHR 0xB4, CHR 0xD1, CHR 0x83, CHR 0xD0, CHR 0xBD, CHR 0xD0,
     CHR 0xB0, CHR 0xD1, CHR 0x80, CHR 0xD0, CHR 0xBE, CHR 0xD0, CHR 0xB4, CHR 0xD0,
     CHR 0xBD, CHR 0xD1, CHR 0x8B, CHR 0xD0, CHR 0xBC, CHR 0x20, CHR 0xD0, CHR 0xB6,
     CHR 0xD0, CHR 0xB5, CHR 0xD0, CHR 0xBD, CHR 0xD1, CHR 0x81, CHR 0xD0, CHR 0xBA,
     CHR 0xD0, CHR 0xB8, CHR 0xD0, CHR 0xBC, CHR 0x20, CHR 0xD0, CHR 0xB4, CHR 0xD0,
     CHR 0xBD, CHR 0xD1, CHR 0x91, CHR 0xD0, CHR 0xBC, CHR 0x21, CHR 0x20, CHR 0xD0,
     CHR 0x9F, CHR 0xD1, CHR 0x83, CHR 0xD1, CHR 0x81, CHR 0xD1, CHR 0x82, CHR 0xD1,
     CHR 0x8C, CHR 0x20, CHR 0xD0, CHR 0xB2, CHR 0xD0, CHR 0xB5, CHR 0xD1, CHR 0x81,
     CHR 0xD0, CHR 0xBD, CHR 0xD0, CHR 0xB0, CHR 0x20, CHR 0xD1, CHR 0x80, CHR 0xD0,
     CHR 0xB0, CHR 0xD1, CHR 0x81, CHR 0xD1, CHR 0x86, CHR 0xD0, CHR 0xB2, CHR 0xD0,
     CHR 0xB5, CHR 0xD1, CHR 0x82, CHR 0xD0, CHR 0xB0, CHR 0xD0, CHR 0xB5, CHR 0xD1,
     CHR 0x82, CHR 0x20, CHR 0xD0, CHR 0xB2, CHR 0x20, CHR 0xD0, CHR 0xB4, CHR 0xD1,
     CHR 0x83, CHR 0xD1, CHR 0x88, CHR 0xD0, CHR 0xB5, CHR 0x2C, CHR 0x20, CHR 0xD0,
     CHR 0xB0, CHR 0x20, CHR 0xD1, CHR 0x81, CHR 0xD0, CHR 0xB5, CHR 0xD1, CHR 0x80,
     CHR 0xD0, CHR 0xB4, CHR 0xD1, CHR 0x86, CHR 0xD0, CHR 0xB5, CHR 0x20, CHR 0xD1,
     CHR 0x81, CHR 0xD0, CHR 0xBE, CHR 0xD0, CHR 0xB3, CHR 0xD1, CHR 0x80, CHR 0xD0,
     CHR 0xB5, CHR 0xD0, CHR 0xB2, CHR 0xD0, CHR 0xB0, CHR 0xD0, CHR 0xB5, CHR 0xD1,
     CHR 0x82, CHR 0x20, CHR 0xD0, CHR 0xBB, CHR 0xD1, CHR 0x8E, CHR 0xD0, CHR 0xB1,
     CHR 0xD0, CHR 0xBE, CHR 0xD0, CHR 0xB2, CHR 0xD1, CHR 0x8C, CHR 0x2E]"

definition greeting_8 :: string where \<comment> \<open>main.go line 28, UTF-8 bytes of the literal\<close>
  "greeting_8 =
    [CHR 0xD0, CHR 0xA1, CHR 0x20, CHR 0x38, CHR 0x20, CHR 0xD0, CHR 0x9C, CHR 0xD0,
     CHR 0xB0, CHR 0xD1, CHR 0x80, CHR 0xD1, CHR 0x82, CHR 0xD0, CHR 0xB0, CHR 0x21,
     CHR 0x20, CHR 0xD0, CHR 0x96, CHR 0xD0, CHR 0xB5, CHR 0xD0, CHR 0xBB, CHR 0xD0,
     CHR 0xB0, CHR 0xD1, CHR 0x8E, CHR 0x2C, CHR 0x20, CHR 0xD1, CHR 0x87, CHR 0xD1,
     CHR 0x82, CHR 0xD0, CHR 0xBE, CHR 0xD0, CHR 0xB1, CHR 0xD1, CHR 0x8B, CHR 0x20,
     CHR 0xD0, CHR 0xBA, CHR 0xD0, CHR 0xB0, CHR 0xD0, CHR 0xB6, CHR 0xD0, CHR 0xB4,
     CHR 0xD1, CHR 0x8B, CHR 0xD0, CHR 0xB9, CHR 0x20, CHR 0xD0, CHR 0xB4, CHR 0xD0,
     CHR 0xB5, CHR 0xD0, CHR 0xBD, CHR 0xD1, CHR 0x8C, CHR 0x20, CHR 0xD0, CHR 0xB1,
     CHR 0xD1, CHR 0x8B, CHR 0xD0, CHR 0xBB, CHR 0x20, CHR 0xD1, CHR 0x82, CHR 0xD0,
     CHR 0xB0, CHR 0xD0, CHR 0xBA, CHR 0xD0, CHR 0xB8, CHR 0xD0, CHR 0xBC, CHR 0x20,
     CHR 0xD0, CHR 0xB6, CHR 0xD0, CHR 0xB5, CHR 0x20, CHR 0xD1, CHR 0x8F, CHR 0xD1,
     CHR 0x80, CHR 0xD0, CHR 0xBA, CHR 0xD0, CHR 0xB8, CHR 0xD0, CHR 0xBC, CHR 0x20,
     CHR 0xD0, CHR 0xB8, CHR 0x20, CHR 0xD0, CHR 0xBF, CHR 0xD1, CHR 0x80, CHR 0xD0,
     CHR 0xB5, CHR 0xD0, CHR 0xBA, CHR 0xD1, CHR 0x80, CHR 0xD0, CHR 0xB0, CHR 0xD1,
     CHR 0x81, CHR 0xD0, CHR 0xBD, CHR 0xD1, CHR 0x8B, CHR 0xD0, CHR 0xBC, CHR 0x2C,
     CHR 0x20, CHR 0xD0, CHR 0xBA, CHR 0xD0, CHR 0xB0, CHR 0xD0, CHR 0xBA, CHR 0x20,
     CHR 0xD0, CHR 0xBF, CHR 0xD0, CHR 0xB5, CHR 0xD1, CHR 0x80, CHR 0xD0, CHR 0xB2,
     CHR 0xD1, CHR 0x8B, CHR 0xD0, CHR 0xB5, CHR 0x20, CHR 0xD0, CHR 0xB2, CHR 0xD0,
     CHR 0xB5, CHR 0xD1, CHR 0x81, CHR 0xD0, CHR 0xB5, CHR 0xD0, CHR 0xBD, CHR 0xD0,
     CHR 0xBD, CHR 0xD0, CHR 0xB8, CHR 0xD0, CHR 0xB5, CHR 0x20, CHR 0xD1, CHR 0x86,
     CHR 0xD0, CHR 0xB2, CHR 0xD0, CHR 0xB5, CHR 0xD1, CHR 0x82, CHR 0xD1, CHR 0x8B,
     CHR 0x2E]"

definition greeting_9 :: string where \<comment> \<open>main.go line 29, UTF-8 bytes of the literal\<close>
  "greeting_9 =
    [CHR 0xD0, CHR 0x9F, CHR 0xD0, CHR 0xBE, CHR 0xD0, CHR 0xB7, CHR 0xD0, CHR 0xB4,
     CHR 0xD1, CHR 0x80, CHR 0xD0, CHR 0xB0, CHR 0xD0, CHR 0xB2, CHR 0xD0, CHR 0xBB,
     CHR 0xD1, CHR 0x8F, CHR 0xD1, CHR 0x8E, CHR 0x20, CHR 0xD1, CHR 0x81, CHR 0x20,
     CHR 0xD0, CHR 0xBF, CHR 0xD1, CHR 0x80, CHR 0xD0, CHR 0xB0, CHR 0xD0, CHR 0xB7,
     CHR 0xD0, CHR 0xB4, CHR 0xD0, CHR 0xBD, CHR 0xD0, CHR 0xB8, CHR 0xD0, CHR 0xBA,
     CHR 0xD0, CHR 0xBE, CHR 0xD0, CHR 0xBC, CHR 0x21, CHR 0x20, CHR 0xD0, CHR 0x9F,
     CHR 0xD1, CHR 0x83, CHR 0xD1, CHR 0x81, CHR 0xD1, CHR 0x82, CHR 0xD1, CHR 0x8C,
     CHR 0x20, CHR 0xD0, CHR 0xB6, CHR 0xD0, CHR 0xB8, CHR 0xD0, CHR 0xB7, CHR 0xD0,
     CHR 0xBD, CHR 0xD1, CHR 0x8C, CHR 0x20, CHR 0xD0, CHR 0xB8, CHR 0xD0, CHR 0xB3,
     CHR 0xD1, CHR 0x80, CHR 0xD0, CHR 0xB0, CHR 0xD0, CHR 0xB5, CHR 0xD1, CHR 0x82,
     CHR 0x20, CHR 0xD1, CHR 0x8F, CHR 0xD1, CHR 0x80, CHR 0xD0, CHR 0xBA, CHR 0xD0,
     CHR 0xB8, CHR 0xD0, CHR 0xBC, CHR 0xD0, CHR 0xB8, CHR 0x20, CHR 0xD0, CHR 0xBA,
     CHR 0xD1, CHR 0x80, CHR 0xD0, CHR 0xB0, CHR 0xD1, CHR 0x81, CHR 0xD0, CHR 0xBA,
     CHR 0xD0, CHR 0xB0, CHR 0xD0, CHR 0xBC, CHR 0xD0, CHR 0xB8, CHR 0x2C, CHR 0x20,
     CHR 0xD0, CHR 0xB0, CHR 0x20, CHR 0xD1, CHR 0x80, CHR 0xD1, CHR 0x8F, CHR 0xD0,
     CHR 0xB4, CHR 0xD0, CHR 0xBE, CHR 0xD0, CHR 0xBC, CHR 0x20, CHR 0xD0, CHR 0xB1,
     CHR 0xD1, CHR 0x83, CHR 0xD0, CHR 0xB4, CHR 0xD1, CHR 0x83, CHR 0xD1, CHR 0x82,
     CHR 0x20, CHR 0xD1, CHR 0x82, CHR 0xD0, CHR 0xBE, CHR 0xD0, CHR 0xBB, CHR 0xD1,
     CHR 0x8C, CHR 0xD0, CHR 0xBA, CHR 0xD0, CHR 0xBE, CHR 0x20, CHR 0xD0, CHR 0xB2,
     CHR 0xD0, CHR 0xB5, CHR 0xD1, CHR 0x80, CHR 0xD0, CHR 0xBD, CHR 0xD1, CHR 0x8B,
     CHR 0xD0, CHR 0xB5, CHR 0x20, CHR 0xD0, CHR 0xB8, CHR 0x20, CHR 0xD0, CHR 0xBB,
     CHR 0xD1, CHR 0x8E, CHR 0xD0, CHR 0xB1, CHR 0xD1, CHR 0x8F, CHR 0xD1, CHR 0x89,
     CHR 0xD0, CHR 0xB8, CHR 0xD0, CHR 0xB5, CHR 0x20, CHR 0xD0, CHR 0xBB, CHR 0xD1,
     CHR 0x8E, CHR 0xD0, CHR 0xB4, CHR 0xD0, CHR 0xB8, CHR 0x2E]"

definition greeting_10 :: string where \<comment> \<open>main.go line 30, UTF-8 bytes of the literal\<close>
  "greeting_10 =
    [CHR 0xD0, CHR 0xA1, CHR 0x20, CHR 0x38, CHR 0x20, CHR 0xD0, CHR 0x9C, CHR 0xD0,
     CHR 0xB0, CHR 0xD1, CHR 0x80, CHR 0xD1, CHR 0x82, CHR 0xD0, CHR 0xB0, CHR 0x21,
     CHR 0x20, CHR 0xD0, CHR 0x96, CHR 0xD0, CHR 0xB5, CHR 0xD0, CHR 0xBB, CHR 0xD0,
     CHR 0xB0, CHR 0xD1, CHR 0x8E, CHR 0x20, CHR 0xD0, CHR 0xB6, CHR 0xD0, CHR 0xB5,
     CHR 0xD0, CHR 0xBD, CHR 0xD1, CHR 0x81, CHR 0xD0, CHR 0xBA, CHR 0xD0, CHR 0xBE,
     CHR 0xD0, CHR 0xB3, CHR 0xD0, CHR 0xBE, CHR 0x20, CHR 0xD1, CHR 0x81, CHR 0xD1,
     CHR 0x87, CHR 0xD0, CHR 0xB0, CHR 0xD1, CHR 0x81, CHR 0xD1, CHR 0x82, CHR 0xD1,
     CHR 0x8C, CHR 0xD1, CHR 0x8F, CHR 0x2C, CHR 0x20, CHR 0xD0, CHR 0xBA, CHR 0xD1,
     CHR 0x80, CHR 0xD0, CHR 0xB5, CHR 0xD0, CHR 0xBF, CHR 0xD0, CHR 0xBA, CHR 0xD0,
     CHR 0xBE, CHR 0xD0, CHR 0xB3, CHR 0xD0, CHR 0xBE, CHR 0x20, CHR 0xD0, CHR 0xB7,
     CHR 0xD0, CHR 0xB4, CHR 0xD0, CHR 0xBE, CHR 0xD1, CHR 0x80, CHR 0xD0, CHR 0xBE,
     CHR 0xD0, CHR 0xB2, CHR 0xD1, CHR 0x8C, CHR 0xD1, CHR 0x8F, CHR 0x20, CHR 0xD0,
     CHR 0xB8, CHR 0x20, CHR 0xD0, CHR 0xB8, CHR 0xD1, CHR 0x81, CHR 0xD0, CHR 0xBF,
     CHR 0xD0, CHR 0xBE, CHR 0xD0, CHR 0xBB, CHR 0xD0, CHR 0xBD, CHR 0xD0, CHR 0xB5,
     CHR 0xD0, CHR 0xBD, CHR 0xD0, CHR 0xB8, CHR 0xD1, CHR 0x8F, CHR 0x20, CHR 0xD0,
     CHR 0xB6, CHR 0xD0, CHR 0xB5, CHR 0xD0, CHR 0xBB, CHR 0xD0, CHR 0xB0, CHR 0xD0,
     CHR 0xBD, CHR 0xD0, CHR 0xB8, CHR 0xD0, CHR 0xB9, CHR 0x21]"

definition flower_1 :: string where \<comment> \<open>variant B line 35, UTF-8 bytes of the literal\<close>
  "flower_1 =
    [CHR 0xF0, CHR 0x9F, CHR 0x8C, CHR 0xB7, CHR 0xF0, CHR 0x9F, CHR 0x8C, CHR 0xB9,
     CHR 0xF0, CHR 0x9F, CHR 0x8C, CHR 0xB8]"

definition flower_2 :: string where \<comment> \<open>variant B line 36, UTF-8 bytes of the literal\<close>
  "flower_2 =
    [CHR 0xF0, CHR 0x9F, CHR 0x8C, CHR 0xBC, CHR 0xF0, CHR 0x9F, CHR 0x8C, CHR 0xBB,
     CHR 0xF0, CHR 0x9F, CHR 0x8C, CHR 0xBA]"

definition flower_3 :: string where \<comment> \<open>variant B line 37, UTF-8 bytes of the literal\<close>
  "flower_3 =
    [CHR 0xF0, CHR 0x9F, CHR 0x8C, CHR 0xB7, CHR 0xF0, CHR 0x9F, CHR 0x8C, CHR 0xB7,
     CHR 0xF0, CHR 0x9F, CHR 0x8C, CHR 0xB7]"

definition flower_4 :: string where \<comment> \<open>variant B line 38, UTF-8 bytes of the literal\<close>
  "flower_4 =
    [CHR 0xF0, CHR 0x9F, CHR 0x8C, CHR 0xB8, CHR 0xF0, CHR 0x9F, CHR 0x8C, CHR 0xB8,
     CHR 0xF0, CHR 0x9F, CHR 0x8C, CHR 0xB8]"

definition flower_5 :: string where \<comment> \<open>variant B line 39, UTF-8 bytes of the literal\<close>
  "flower_5 =
    [CHR 0xF0, CHR 0x9F, CHR 0x8C, CHR 0xB9, CHR 0xF0, CHR 0x9F, CHR 0x8C, CHR 0xB9,
     CHR 0xF0, CHR 0x9F, CHR 0x8C, CHR 0xB9]"

definition flower_6 :: string where \<comment> \<open>variant B line 40, UTF-8 bytes of the literal\<close>
  "flower_6 =
    [CHR 0xF0, CHR 0x9F, CHR 0x8C, CHR 0xBA, CHR 0xF0, CHR 0x9F, CHR 0x8C, CHR 0xBA,
     CHR 0xF0, CHR 0x9F, CHR 0x8C, CHR 0xBA]"

definition flower_7 :: string where \<comment> \<open>variant B line 41, UTF-8 bytes of the literal\<close>
  "flower_7 =
    [CHR 0xF0, CHR 0x9F, CHR 0x8C, CHR 0xBB, CHR 0xF0, CHR 0x9F, CHR 0x8C, CHR 0xBB,
     CHR 0xF0, CHR 0x9F, CHR 0x8C, CHR 0xBB]"

definition flower_8 :: string where \<comment> \<open>variant B line 42, UTF-8 bytes of the literal\<close>
  "flower_8 =
    [CHR 0xF0, CHR 0x9F, CHR 0x8C, CHR 0xBC, CHR 0xF0, CHR 0x9F, CHR 0x8C, CHR 0xBC,
     CHR 0xF0, CHR 0x9F, CHR 0x8C, CHR 0xBC]"

definition flower_9 :: string where \<comment> \<open>variant B line 43, UTF-8 bytes of the literal\<close>
  "flower_9 =
    [CHR 0xF0, CHR 0x9F, CHR 0x8C, CHR 0xB7, CHR 0xF0, CHR 0x9F, CHR 0x8C, CHR 0xB9,
     CHR 0xF0, CHR 0x9F, CHR 0x8C, CHR 0xBA]"

definition flower_10 :: string where \<comment> \<open>variant B line 44, UTF-8 bytes of the literal\<close>
  "flower_10 =
    [CHR 0xF0, CHR 0x9F, CHR 0x8C, CHR 0xB8, CHR 0xF0, CHR 0x9F, CHR 0x8C, CHR 0xBC,
     CHR 0xF0, CHR 0x9F, CHR 0x8C, CHR 0xBB]"


text \<open>
  The package-level variables. Variant A declares \<^verbatim>\<open>greetings\<close> only. The field
  \<open>reads\<close> is a ghost log: every read of a package-level variable appends to it, and
  nothing else of the program can see it.
\<close>

datatype access = Len_greetings | Index_greetings int | Index_flowers int

record globals_A =
  greetings :: "string list"
  reads :: "access list"

record globals_B = globals_A +
  flowers :: "string list"

definition catalog_A :: globals_A where
  "catalog_A = \<lparr>greetings =
      [greeting_1, greeting_2, greeting_3, greeting_4, greeting_5,
       greeting_6, greeting_7, greeting_8, greeting_9, greeting_10],
     reads = []\<rparr>"

definition catalog_B :: globals_B where
  "catalog_B = \<lparr>greetings =
      [greeting_1, greeting_2, greeting_3, greeting_4, greeting_5,
       greeting_6, greeting_7, greeting_8, greeting_9, greeting_10],
     reads = [],
     flowers =
      [flower_1, flower_2, flower_3, flower_4, flower_5,
       flower_6, flower_7, flower_8, flower_9, flower_10]\<rparr>"

text \<open>Indexing a slice panics outside \<open>0 \<le> i < len\<close>.\<close>

datatype panic = IndexOutOfRange int nat

definition slice_index :: "'a list \<Rightarrow> int \<Rightarrow> panic + 'a" where
  "slice_index xs i =
     (if 0 \<le> i \<and> i < int (length xs) then Inr (xs ! nat i)
      else Inl (IndexOutOfRange i (length xs)))"

definition len_greetings :: "'a globals_A_scheme \<Rightarrow> int \<times> 'a globals_A_scheme" where
  "len_greetings s = (int (length (greetings s)), s\<lparr>reads := reads s @ [Len_greetings]\<rparr>)"

definition index_greetings ::
    "int \<Rightarrow> 'a globals_A_scheme \<Rightarrow> (panic + string) \<times> 'a globals_A_scheme" where
  "index_greetings i s =
     (slice_index (greetings s) i, s\<lparr>reads := reads s @ [Index_greetings i]\<rparr>)"

definition index_flowers :: "int \<Rightarrow> globals_B \<Rightarrow> (panic + string) \<times> globals_B" where
  "index_flowers i s =
     (slice_index (flowers s) i, s\<lparr>reads := reads s @ [Index_flowers i]\<rparr>)"

section \<open>The Lookup Resolver\<close>

text \<open>
  The two \<^verbatim>\<open>fmt.Errorf\<close> calls of \<^verbatim>\<open>Resolve\<close> are the two errors; \<open>Error\<close> is the
  message each carries.
\<close>

datatype error = ValidationError | NotFound int

definition msg_not_integer :: string where \<comment> \<open>main.go line 45\<close>
  "msg_not_integer =
    [CHR 0x69, CHR 0x64, CHR 0x20, CHR 0xD0, CHR 0xB4, CHR 0xD0, CHR 0xBE, CHR 0xD0,
     CHR 0xBB, CHR 0xD0, CHR 0xB6, CHR 0xD0, CHR 0xB5, CHR 0xD0, CHR 0xBD, CHR 0x20,
     CHR 0xD0, CHR 0xB1, CHR 0xD1, CHR 0x8B, CHR 0xD1, CHR 0x82, CHR 0xD1, CHR 0x8C,
     CHR 0x20, CHR 0xD1, CHR 0x86, CHR 0xD0, CHR 0xB5, CHR 0xD0, CHR 0xBB, CHR 0xD1,
     CHR 0x8B, CHR 0xD0, CHR 0xBC, CHR 0x20, CHR 0xD1, CHR 0x87, CHR 0xD0, CHR 0xB8,
     CHR 0xD1, CHR 0x81, CHR 0xD0, CHR 0xBB, CHR 0xD0, CHR 0xBE, CHR 0xD0, CHR 0xBC]"

definition msg_not_found_pre :: string where \<comment> \<open>main.go line 48, before the verb\<close>
  "msg_not_found_pre =
    [CHR 0xD0, CHR 0xBF, CHR 0xD0, CHR 0xBE, CHR 0xD0, CHR 0xB7, CHR 0xD0, CHR 0xB4,
     CHR 0xD1, CHR 0x80, CHR 0xD0, CHR 0xB0, CHR 0xD0, CHR 0xB2, CHR 0xD0, CHR 0xBB,
     CHR 0xD0, CHR 0xB5, CHR 0xD0, CHR 0xBD, CHR 0xD0, CHR 0xB8, CHR 0xD0, CHR 0xB5,
     CHR 0x20, CHR 0xD1, CHR 0x81, CHR 0x20, CHR 0x49, CHR 0x44, CHR 0x20]"

definition msg_not_found_post :: string where \<comment> \<open>main.go line 48, after the verb\<close>
  "msg_not_found_post =
    [CHR 0x20, CHR 0xD0, CHR 0xBD, CHR 0xD0, CHR 0xB5, CHR 0x20, CHR 0xD0, CHR 0xBD,
     CHR 0xD0, CHR 0xB0, CHR 0xD0, CHR 0xB9, CHR 0xD0, CHR 0xB4, CHR 0xD0, CHR 0xB5,
     CHR 0xD0, CHR 0xBD, CHR 0xD0, CHR 0xBE]"

definition Error :: "error \<Rightarrow> string" where
  "Error e = (case e of
       ValidationError \<Rightarrow> msg_not_integer
     | NotFound i \<Rightarrow> msg_not_found_pre @ fmt_d i @ msg_not_found_post)"

text \<open>What a call of \<^verbatim>\<open>Resolve\<close> ends in: a value with a \<^verbatim>\<open>nil\<close> error, a
  \<^verbatim>\<open>nil\<close> value with an error, or a run-time panic.\<close>

datatype 'a outcome = Value 'a | Failure error | Panic panic

record ResolveParams =
  Args :: "string \<Rightarrow> dyn option"

record GreetingResponse =
  Text :: string
  Flowers :: string

text \<open>\<^verbatim>\<open>main.go\<close> lines 42 to 52. The condition \<^verbatim>\<open>id < 1 || id > len(greetings)\<close>
  reads the length only when \<^verbatim>\<open>id < 1\<close> is false.\<close>

definition Resolve_A :: "ResolveParams \<Rightarrow> globals_A \<Rightarrow> string outcome \<times> globals_A" where
  "Resolve_A p s =
     (case assert_int (map_index (Args p) ''id'') of
        None \<Rightarrow> (Failure ValidationError, s)
      | Some i \<Rightarrow>
          if i < 1 then (Failure (NotFound i), s)
          else
            let (n, s1) = len_greetings s in
            if i > n then (Failure (NotFound i), s1)
            else
              let (g, s2) = index_greetings (i - 1) s1 in
              (case g of
                 Inl e \<Rightarrow> (Panic e, s2)
               | Inr text \<Rightarrow> (Value text, s2)))"

text \<open>Variant B, lines 75 to 88: the same checks, then both slices are read at
  \<^verbatim>\<open>id-1\<close>.\<close>

definition Resolve_B ::
    "ResolveParams \<Rightarrow> globals_B \<Rightarrow> GreetingResponse outcome \<times> globals_B" where
  "Resolve_B p s =
     (case assert_int (map_index (Args p) ''id'') of
        None \<Rightarrow> (Failure ValidationError, s)
      | Some i \<Rightarrow>
          if i < 1 then (Failure (NotFound i), s)
          else
            let (n, s1) = len_greetings s in
            if i > n then (Failure (NotFound i), s1)
            else
              let (g, s2) = index_greetings (i - 1) s1 in
              (case g of
                 Inl e \<Rightarrow> (Panic e, s2)
               | Inr text \<Rightarrow>
                   let (f, s3) = index_flowers (i - 1) s2 in
                   (case f of
                      Inl e \<Rightarrow> (Panic e, s3)
                    | Inr fl \<Rightarrow> (Value \<lparr>Text = text, Flowers = fl\<rparr>, s3))))"

text \<open>The argument map the engine hands over for \<^verbatim>\<open>greeting(id: v)\<close>.\<close>

definition args_id :: "dyn \<Rightarrow> ResolveParams" where
  "args_id v = \<lparr>Args = (\<lambda>k. if k = ''id'' then Some v else None)\<rparr>"


text \<open>
  The engine calls \<^verbatim>\<open>Resolve\<close> once for each query it executes. \<open>resolutions\<close> runs
  the calls of a sequence of queries one after another on the package's variables.
\<close>

fun resolutions_A :: "ResolveParams list \<Rightarrow> globals_A \<Rightarrow> string outcome list \<times> globals_A" where
  "resolutions_A [] s = ([], s)"
| "resolutions_A (p # ps) s =
     (let (r, s1) = Resolve_A p s; (rs, s2) = resolutions_A ps s1 in (r # rs, s2))"

fun resolutions_B ::
    "ResolveParams list \<Rightarrow> globals_B \<Rightarrow> GreetingResponse outcome list \<times> globals_B" where
  "resolutions_B [] s = ([], s)"
| "resolutions_B (p # ps) s =
     (let (r, s1) = Resolve_B p s; (rs, s2) = resolutions_B ps s1 in (r # rs, s2))"

section \<open>The Schema Definition\<close>

text \<open>
  The types and fields handed to \<^verbatim>\<open>graphql.NewObject\<close>, as data. A \<open>Field\<close> holds
  its \<^verbatim>\<open>Type\<close> and its \<^verbatim>\<open>Args\<close>; its \<^verbatim>\<open>Resolve\<close> is the function above.
\<close>

datatype gql_type =
    graphql_String
  | graphql_Int
  | NewNonNull gql_type
  | NewObject string "(string \<times> gql_field) list"
and gql_field =
    Field (field_Type: gql_type) (field_Args: "(string \<times> gql_type) list")

definition greetingField_A :: gql_field where \<comment> \<open>main.go lines 35 to 41\<close>
  "greetingField_A = Field graphql_String [(''id'', NewNonNull graphql_Int)]"

definition rootQuery_A :: gql_type where \<comment> \<open>main.go lines 55 to 60\<close>
  "rootQuery_A = NewObject ''Query'' [(''greeting'', greetingField_A)]"

definition greetingType :: gql_type where \<comment> \<open>variant B lines 55 to 65\<close>
  "greetingType = NewObject ''Greeting''
     [(''text'', Field (NewNonNull graphql_String) []),
      (''flowers'', Field (NewNonNull graphql_String) [])]"

definition greetingField_B :: gql_field where \<comment> \<open>variant B lines 68 to 74\<close>
  "greetingField_B = Field greetingType [(''id'', NewNonNull graphql_Int)]"

definition rootQuery_B :: gql_type where \<comment> \<open>variant B lines 91 to 96\<close>
  "rootQuery_B = NewObject ''Query'' [(''greeting'', greetingField_B)]"

text \<open>A type in the schema language: a name, with \<^verbatim>\<open>!\<close> after a non-null type.\<close>

fun type_name :: "gql_type \<Rightarrow> string" where
  "type_name graphql_String = ''String''"
| "type_name graphql_Int = ''Int''"
| "type_name (NewNonNull t) = type_name t @ ''!''"
| "type_name (NewObject name fs) = name"

fun non_null :: "gql_type \<Rightarrow> bool" where
  "non_null (NewNonNull t) = True"
| "non_null _ = False"

text \<open>The fields of an object type, each with its arguments and its type by name.\<close>

fun signatures :: "gql_type \<Rightarrow> (string \<times> (string \<times> string) list \<times> string) list" where
  "signatures (NewObject name fs) =
     map (\<lambda>(f, d). (f, map (\<lambda>(a, t). (a, type_name t)) (field_Args d), type_name (field_Type d)))
       fs"
| "signatures _ = []"

section \<open>Configuration, the command-line loop and shutdown\<close>

definition msg_banner_A :: string where \<comment> \<open>main.go line 95\<close>
  "msg_banner_A =
    [CHR 0xD0, CHR 0x92, CHR 0xD0, CHR 0xB2, CHR 0xD0, CHR 0xB5, CHR 0xD0, CHR 0xB4,
     CHR 0xD0, CHR 0xB8, CHR 0xD1, CHR 0x82, CHR 0xD0, CHR 0xB5, CHR 0x20, CHR 0x49,
     CHR 0x44, CHR 0x20, CHR 0xD0, CHR 0xBF, CHR 0xD0, CHR 0xBE, CHR 0xD0, CHR 0xB7,
     CHR 0xD0, CHR 0xB4, CHR 0xD1, CHR 0x80, CHR 0xD0, CHR 0xB0, CHR 0xD0, CHR 0xB2,
     CHR 0xD0, CHR 0xBB, CHR 0xD0, CHR 0xB5, CHR 0xD0, CHR 0xBD, CHR 0xD0, CHR 0xB8,
     CHR 0xD1, CHR 0x8F, CHR 0x20, CHR 0x28, CHR 0xD0, CHR 0xBE, CHR 0xD1, CHR 0x82,
     CHR 0x20, CHR 0x31, CHR 0x20, CHR 0xD0, CHR 0xB4, CHR 0xD0, CHR 0xBE, CHR 0x20,
     CHR 0x31, CHR 0x30, CHR 0x29, CHR 0x20, CHR 0xD0, CHR 0xB4, CHR 0xD0, CHR 0xBB,
     CHR 0xD1, CHR 0x8F, CHR 0x20, CHR 0xD0, CHR 0xBF, CHR 0xD0, CHR 0xBE, CHR 0xD0,
     CHR 0xBB, CHR 0xD1, CHR 0x83, CHR 0xD1, CHR 0x87, CHR 0xD0, CHR 0xB5, CHR 0xD0,
     CHR 0xBD, CHR 0xD0, CHR 0xB8, CHR 0xD1, CHR 0x8F, CHR 0x20, CHR 0xD1, CHR 0x82,
     CHR 0xD0, CHR 0xB5, CHR 0xD0, CHR 0xBA, CHR 0xD1, CHR 0x81, CHR 0xD1, CHR 0x82,
     CHR 0xD0, CHR 0xB0, CHR 0x2E, CHR 0x20, CHR 0xD0, CHR 0x94, CHR 0xD0, CHR 0xBB,
     CHR 0xD1, CHR 0x8F, CHR 0x20, CHR 0xD0, CHR 0xB2, CHR 0xD1, CHR 0x8B, CHR 0xD1,
     CHR 0x85, CHR 0xD0, CHR 0xBE, CHR 0xD0, CHR 0xB4, CHR 0xD0, CHR 0xB0, CHR 0x20,
     CHR 0xD0, CHR 0xB2, CHR 0xD0, CHR 0xB2, CHR 0xD0, CHR 0xB5, CHR 0xD0, CHR 0xB4,
     CHR 0xD0, CHR 0xB8, CHR 0xD1, CHR 0x82, CHR 0xD0, CHR 0xB5, CHR 0x20, CHR 0x27,
     CHR 0x65, CHR 0x78, CHR 0x69, CHR 0x74, CHR 0x27, CHR 0x20, CHR 0xD0, CHR 0xB8,
     CHR 0xD0, CHR 0xBB, CHR 0xD0, CHR 0xB8, CHR 0x20, CHR 0xD0, CHR 0xBD, CHR 0xD0,
     CHR 0xB0, CHR 0xD0, CHR 0xB6, CHR 0xD0, CHR 0xBC, CHR 0xD0, CHR 0xB8, CHR 0xD1,
     CHR 0x82, CHR 0xD0, CHR 0xB5, CHR 0x20, CHR 0x43, CHR 0x74, CHR 0x72, CHR 0x6C,
     CHR 0x2B, CHR 0x43, CHR 0x2E]"

definition msg_banner_B :: string where \<comment> \<open>variant B line 131\<close>
  "msg_banner_B =
    [CHR 0xD0, CHR 0x92, CHR 0xD0, CHR 0xB2, CHR 0xD0, CHR 0xB5, CHR 0xD0, CHR 0xB4,
     CHR 0xD0, CHR 0xB8, CHR 0xD1, CHR 0x82, CHR 0xD0, CHR 0xB5, CHR 0x20, CHR 0x49,
     CHR 0x44, CHR 0x20, CHR 0xD0, CHR 0xBF, CHR 0xD0, CHR 0xBE, CHR 0xD0, CHR 0xB7,
     CHR 0xD0, CHR 0xB4, CHR 0xD1, CHR 0x80, CHR 0xD0, CHR 0xB0, CHR 0xD0, CHR 0xB2,
     CHR 0xD0, CHR 0xBB, CHR 0xD0, CHR 0xB5, CHR 0xD0, CHR 0xBD, CHR 0xD0, CHR 0xB8,
     CHR 0xD1, CHR 0x8F, CHR 0x20, CHR 0x28, CHR 0xD0, CHR 0xBE, CHR 0xD1, CHR 0x82,
     CHR 0x20, CHR 0x31, CHR 0x20, CHR 0xD0, CHR 0xB4, CHR 0xD0, CHR 0xBE, CHR 0x20,
     CHR 0x31, CHR 0x30, CHR 0x29, CHR 0x20, CHR 0xD0, CHR 0xB4, CHR 0xD0, CHR 0xBB,
     CHR 0xD1, CHR 0x8F, CHR 0x20, CHR 0xD0, CHR 0xBF, CHR 0xD0, CHR 0xBE, CHR 0xD0,
     CHR 0xBB, CHR 0xD1, CHR 0x83, CHR 0xD1, CHR 0x87, CHR 0xD0, CHR 0xB5, CHR 0xD0,
     CHR 0xBD, CHR 0xD0, CHR 0xB8, CHR 0xD1, CHR 0x8F, CHR 0x20, CHR 0xD1, CHR 0x82,
     CHR 0xD0, CHR 0xB5, CHR 0xD0, CHR 0xBA, CHR 0xD1, CHR 0x81, CHR 0xD1, CHR 0x82,
     CHR 0xD0, CHR 0xB0, CHR 0x20, CHR 0xD0, CHR 0xB8, CHR 0x20, CHR 0xD1, CHR 0x86,
     CHR 0xD0, CHR 0xB2, CHR 0xD0, CHR 0xB5, CHR 0xD1, CHR 0x82, CHR 0xD0, CHR 0xBE,
     CHR 0xD0, CHR 0xB2, CHR 0x2E, CHR 0x20, CHR 0xD0, CHR 0x94, CHR 0xD0, CHR 0xBB,
     CHR 0xD1, CHR 0x8F, CHR 0x20, CHR 0xD0, CHR 0xB2, CHR 0xD1, CHR 0x8B, CHR 0xD1,
     CHR 0x85, CHR 0xD0, CHR 0xBE, CHR 0xD0, CHR 0xB4, CHR 0xD0, CHR 0xB0, CHR 0x20,
     CHR 0xD0, CHR 0xB2, CHR 0xD0, CHR 0xB2, CHR 0xD0, CHR 0xB5, CHR 0xD0, CHR 0xB4,
     CHR 0xD0, CHR 0xB8, CHR 0xD1, CHR 0x82, CHR 0xD0, CHR 0xB5, CHR 0x20, CHR 0x27,
     CHR 0x65, CHR 0x78, CHR 0x69, CHR 0x74, CHR 0x27, CHR 0x20, CHR 0xD0, CHR 0xB8,
     CHR 0xD0, CHR 0xBB, CHR 0xD0, CHR 0xB8, CHR 0x20, CHR 0xD0, CHR 0xBD, CHR 0xD0,
     CHR 0xB0, CHR 0xD0, CHR 0xB6, CHR 0xD0, CHR 0xBC, CHR 0xD0, CHR 0xB8, CHR 0xD1,
     CHR 0x82, CHR 0xD0, CHR 0xB5, CHR 0x20, CHR 0x43, CHR 0x74, CHR 0x72, CHR 0x6C,
     CHR 0x2B, CHR 0x43, CHR 0x2E]"

definition msg_input_error :: string where \<comment> \<open>main.go line 101\<close>
  "msg_input_error =
    [CHR 0xD0, CHR 0x9E, CHR 0xD1, CHR 0x88, CHR 0xD0, CHR 0xB8, CHR 0xD0, CHR 0xB1,
     CHR 0xD0, CHR 0xBA, CHR 0xD0, CHR 0xB0, CHR 0x20, CHR 0xD0, CHR 0xB2, CHR 0xD0,
     CHR 0xB2, CHR 0xD0, CHR 0xBE, CHR 0xD0, CHR 0xB4, CHR 0xD0, CHR 0xB0, CHR 0x2C,
     CHR 0x20, CHR 0xD0, CHR 0xBF, CHR 0xD0, CHR 0xBE, CHR 0xD0, CHR 0xBF, CHR 0xD1,
     CHR 0x80, CHR 0xD0, CHR 0xBE, CHR 0xD0, CHR 0xB1, CHR 0xD1, CHR 0x83, CHR 0xD0,
     CHR 0xB9, CHR 0xD1, CHR 0x82, CHR 0xD0, CHR 0xB5, CHR 0x20, CHR 0xD1, CHR 0x81,
     CHR 0xD0, CHR 0xBD, CHR 0xD0, CHR 0xBE, CHR 0xD0, CHR 0xB2, CHR 0xD0, CHR 0xB0]"

definition msg_bye :: string where \<comment> \<open>main.go line 105\<close>
  "msg_bye =
    [CHR 0xD0, CHR 0x97, CHR 0xD0, CHR 0xB0, CHR 0xD0, CHR 0xB2, CHR 0xD0, CHR 0xB5,
     CHR 0xD1, CHR 0x80, CHR 0xD1, CHR 0x88, CHR 0xD0, CHR 0xB5, CHR 0xD0, CHR 0xBD,
     CHR 0xD0, CHR 0xB8, CHR 0xD0, CHR 0xB5, CHR 0x20, CHR 0xD1, CHR 0x80, CHR 0xD0,
     CHR 0xB0, CHR 0xD0, CHR 0xB1, CHR 0xD0, CHR 0xBE, CHR 0xD1, CHR 0x82, CHR 0xD1,
     CHR 0x8B, CHR 0x2E]"

definition msg_enter_number :: string where \<comment> \<open>main.go line 112\<close>
  "msg_enter_number =
    [CHR 0xD0, CHR 0x9F, CHR 0xD0, CHR 0xBE, CHR 0xD0, CHR 0xB6, CHR 0xD0, CHR 0xB0,
     CHR 0xD0, CHR 0xBB, CHR 0xD1, CHR 0x83, CHR 0xD0, CHR 0xB9, CHR 0xD1, CHR 0x81,
     CHR 0xD1, CHR 0x82, CHR 0xD0, CHR 0xB0, CHR 0x2C, CHR 0x20, CHR 0xD0, CHR 0xB2,
     CHR 0xD0, CHR 0xB2, CHR 0xD0, CHR 0xB5, CHR 0xD0, CHR 0xB4, CHR 0xD0, CHR 0xB8,
     CHR 0xD1, CHR 0x82, CHR 0xD0, CHR 0xB5, CHR 0x20, CHR 0xD1, CHR 0x87, CHR 0xD0,
     CHR 0xB8, CHR 0xD1, CHR 0x81, CHR 0xD0, CHR 0xBB, CHR 0xD0, CHR 0xBE, CHR 0x20,
     CHR 0xD0, CHR 0xBE, CHR 0xD1, CHR 0x82, CHR 0x20, CHR 0x31, CHR 0x20, CHR 0xD0,
     CHR 0xB4, CHR 0xD0, CHR 0xBE, CHR 0x20, CHR 0x31, CHR 0x30]"

definition query_pre_A :: string where \<comment> \<open>main.go line 117, before the verb\<close>
  "query_pre_A =
    ''{'' @ [CHR 0x22] @ ''query'' @ [CHR 0x22] @ '': '' @ [CHR 0x22] @ ''query { greeting(id: ''"

definition query_post_A :: string where \<comment> \<open>main.go line 117, after the verb\<close>
  "query_post_A =
    '') }'' @ [CHR 0x22] @ ''}''"

definition query_pre_B :: string where \<comment> \<open>variant B line 153, before the verb\<close>
  "query_pre_B =
    ''{'' @ [CHR 0x22] @ ''query'' @ [CHR 0x22] @ '': '' @ [CHR 0x22] @ ''query { greeting(id: ''"

definition query_post_B :: string where \<comment> \<open>variant B line 153, after the verb\<close>
  "query_post_B =
    '') { text flowers } }'' @ [CHR 0x22] @ ''}''"

definition msg_post_failed :: string where \<comment> \<open>main.go line 122\<close>
  "msg_post_failed =
    [CHR 0xD0, CHR 0x9E, CHR 0xD1, CHR 0x88, CHR 0xD0, CHR 0xB8, CHR 0xD0, CHR 0xB1,
     CHR 0xD0, CHR 0xBA, CHR 0xD0, CHR 0xB0, CHR 0x20, CHR 0xD0, CHR 0xBF, CHR 0xD1,
     CHR 0x80, CHR 0xD0, CHR 0xB8, CHR 0x20, CHR 0xD0, CHR 0xBE, CHR 0xD1, CHR 0x82,
     CHR 0xD0, CHR 0xBF, CHR 0xD1, CHR 0x80, CHR 0xD0, CHR 0xB0, CHR 0xD0, CHR 0xB2,
     CHR 0xD0, CHR 0xBA, CHR 0xD0, CHR 0xB5, CHR 0x20, CHR 0xD0, CHR 0xB7, CHR 0xD0,
     CHR 0xB0, CHR 0xD0, CHR 0xBF, CHR 0xD1, CHR 0x80, CHR 0xD0, CHR 0xBE, CHR 0xD1,
     CHR 0x81, CHR 0xD0, CHR 0xB0, CHR 0x3A, CHR 0x20]"

definition msg_decode_failed :: string where \<comment> \<open>main.go line 136\<close>
  "msg_decode_failed =
    [CHR 0xD0, CHR 0x9E, CHR 0xD1, CHR 0x88, CHR 0xD0, CHR 0xB8, CHR 0xD0, CHR 0xB1,
     CHR 0xD0, CHR 0xBA, CHR 0xD0, CHR 0xB0, CHR 0x20, CHR 0xD0, CHR 0xB4, CHR 0xD0,
     CHR 0xB5, CHR 0xD0, CHR 0xBA, CHR 0xD0, CHR 0xBE, CHR 0xD0, CHR 0xB4, CHR 0xD0,
     CHR 0xB8, CHR 0xD1, CHR 0x80, CHR 0xD0, CHR 0xBE, CHR 0xD0, CHR 0xB2, CHR 0xD0,
     CHR 0xB0, CHR 0xD0, CHR 0xBD, CHR 0xD0, CHR 0xB8, CHR 0xD1, CHR 0x8F, CHR 0x20,
     CHR 0xD0, CHR 0xBE, CHR 0xD1, CHR 0x82, CHR 0xD0, CHR 0xB2, CHR 0xD0, CHR 0xB5,
     CHR 0xD1, CHR 0x82, CHR 0xD0, CHR 0xB0, CHR 0x3A, CHR 0x20]"

definition msg_server_error :: string where \<comment> \<open>main.go line 141\<close>
  "msg_server_error =
    [CHR 0xD0, CHR 0x9E, CHR 0xD1, CHR 0x88, CHR 0xD0, CHR 0xB8, CHR 0xD0, CHR 0xB1,
     CHR 0xD0, CHR 0xBA, CHR 0xD0, CHR 0xB0, CHR 0x20, CHR 0xD0, CHR 0xBE, CHR 0xD1,
     CHR 0x82, CHR 0x20, CHR 0xD1, CHR 0x81, CHR 0xD0, CHR 0xB5, CHR 0xD1, CHR 0x80,
     CHR 0xD0, CHR 0xB2, CHR 0xD0, CHR 0xB5, CHR 0xD1, CHR 0x80, CHR 0xD0, CHR 0xB0,
     CHR 0x3A, CHR 0x20]"

definition msg_greeting :: string where \<comment> \<open>main.go line 143\<close>
  "msg_greeting =
    [CHR 0xD0, CHR 0x9F, CHR 0xD0, CHR 0xBE, CHR 0xD0, CHR 0xB7, CHR 0xD0, CHR 0xB4,
     CHR 0xD1, CHR 0x80, CHR 0xD0, CHR 0xB0, CHR 0xD0, CHR 0xB2, CHR 0xD0, CHR 0xBB,
     CHR 0xD0, CHR 0xB5, CHR 0xD0, CHR 0xBD, CHR 0xD0, CHR 0xB8, CHR 0xD0, CHR 0xB5,
     CHR 0x3A, CHR 0x20]"

definition msg_flowers :: string where \<comment> \<open>variant B line 183\<close>
  "msg_flowers =
    [CHR 0xD0, CHR 0xA6, CHR 0xD0, CHR 0xB2, CHR 0xD0, CHR 0xB5, CHR 0xD1, CHR 0x82,
     CHR 0xD1, CHR 0x8B, CHR 0x3A, CHR 0x20]"

definition msg_stopping :: string where \<comment> \<open>main.go line 148\<close>
  "msg_stopping =
    [CHR 0xD0, CHR 0x9E, CHR 0xD1, CHR 0x81, CHR 0xD1, CHR 0x82, CHR 0xD0, CHR 0xB0,
     CHR 0xD0, CHR 0xBD, CHR 0xD0, CHR 0xB0, CHR 0xD0, CHR 0xB2, CHR 0xD0, CHR 0xBB,
     CHR 0xD0, CHR 0xB8, CHR 0xD0, CHR 0xB2, CHR 0xD0, CHR 0xB0, CHR 0xD0, CHR 0xB5,
     CHR 0xD0, CHR 0xBC, CHR 0x20, CHR 0xD1, CHR 0x81, CHR 0xD0, CHR 0xB5, CHR 0xD1,
     CHR 0x80, CHR 0xD0, CHR 0xB2, CHR 0xD0, CHR 0xB5, CHR 0xD1, CHR 0x80, CHR 0x2E,
     CHR 0x2E, CHR 0x2E]"

definition msg_shutdown_failed :: string where \<comment> \<open>main.go line 152\<close>
  "msg_shutdown_failed =
    [CHR 0xD0, CHR 0x9E, CHR 0xD1, CHR 0x88, CHR 0xD0, CHR 0xB8, CHR 0xD0, CHR 0xB1,
     CHR 0xD0, CHR 0xBA, CHR 0xD0, CHR 0xB0, CHR 0x20, CHR 0xD0, CHR 0xBF, CHR 0xD1,
     CHR 0x80, CHR 0xD0, CHR 0xB8, CHR 0x20, CHR 0xD0, CHR 0xBE, CHR 0xD1, CHR 0x81,
     CHR 0xD1, CHR 0x82, CHR 0xD0, CHR 0xB0, CHR 0xD0, CHR 0xBD, CHR 0xD0, CHR 0xBE,
     CHR 0xD0, CHR 0xB2, CHR 0xD0, CHR 0xBA, CHR 0xD0, CHR 0xB5, CHR 0x20, CHR 0xD1,
     CHR 0x81, CHR 0xD0, CHR 0xB5, CHR 0xD1, CHR 0x80, CHR 0xD0, CHR 0xB2, CHR 0xD0,
     CHR 0xB5, CHR 0xD1, CHR 0x80, CHR 0xD0, CHR 0xB0, CHR 0x3A, CHR 0x20]"

definition msg_stopped :: string where \<comment> \<open>main.go line 154\<close>
  "msg_stopped =
    [CHR 0xD0, CHR 0xA1, CHR 0xD0, CHR 0xB5, CHR 0xD1, CHR 0x80, CHR 0xD0, CHR 0xB2,
     CHR 0xD0, CHR 0xB5, CHR 0xD1, CHR 0x80, CHR 0x20, CHR 0xD0, CHR 0xBE, CHR 0xD1,
     CHR 0x81, CHR 0xD1, CHR 0x82, CHR 0xD0, CHR 0xB0, CHR 0xD0, CHR 0xBD, CHR 0xD0,
     CHR 0xBE, CHR 0xD0, CHR 0xB2, CHR 0xD0, CHR 0xBB, CHR 0xD0, CHR 0xB5, CHR 0xD0,
     CHR 0xBD, CHR 0x2E]"


text \<open>
  What the process reads from outside: the environment variables, standard input as
  the results of the successive \<^verbatim>\<open>fmt.Scanln\<close> calls, and the library calls whose
  results the programs branch on. \<open>Sscan\<close> is \<^verbatim>\<open>fmt.Sscan(input, &id)\<close> (\<open>None\<close>
  when it returns an error), \<open>Post\<close> is \<^verbatim>\<open>http.Post\<close> and \<open>Decode\<close> the JSON
  decoding of the response body into the data and the error messages (\<open>Inl\<close> the
  error of either), \<open>Shutdown\<close> is \<^verbatim>\<open>server.Shutdown\<close> given the timeout of its
  context in nanoseconds.
\<close>

record ('r, 'g) world =
  environ :: "string \<Rightarrow> string option"
  Sscan :: "string \<Rightarrow> int option"
  Post :: "string \<Rightarrow> string \<Rightarrow> string \<Rightarrow> string + 'r"
  Decode :: "'r \<Rightarrow> string + 'g \<times> string list"
  Shutdown :: "int \<Rightarrow> string option"

text \<open>\<^verbatim>\<open>os.Getenv\<close>: the empty string for a variable that is not set.\<close>

definition Getenv :: "(string \<Rightarrow> string option) \<Rightarrow> string \<Rightarrow> string" where
  "Getenv env k = (case env k of None \<Rightarrow> [] | Some v \<Rightarrow> v)"

text \<open>\<^verbatim>\<open>main.go\<close> lines 76 to 80, and the same statements in variant B
  (lines 112 to 117).\<close>

definition port :: "('r, 'g) world \<Rightarrow> string" where
  "port w = (let p = Getenv (environ w) ''PORT'' in if p = [] then ''8080'' else p)"

definition server_Addr :: "('r, 'g) world \<Rightarrow> string" where
  "server_Addr w = '':'' @ port w"

text \<open>The address \<^verbatim>\<open>http.Post\<close> is given: a constant in \<^verbatim>\<open>main.go\<close> (line 120),
  built from \<^verbatim>\<open>port\<close> in variant B (line 156).\<close>

definition post_url_A :: "('r, 'g) world \<Rightarrow> string" where
  "post_url_A w = ''http://localhost:8080/''"

definition post_url_B :: "('r, 'g) world \<Rightarrow> string" where
  "post_url_B w = ''http://localhost:'' @ port w @ ''/''"

text \<open>What the process does that can be seen from outside.\<close>

datatype event =
    Stdout string
  | Logged string
  | HttpPost string string string
  | ServerShutdown int

definition Println :: "string \<Rightarrow> event" where
  "Println s = Stdout (s @ [CHR 0x0A])"

fun posted_urls :: "event list \<Rightarrow> string list" where
  "posted_urls [] = []"
| "posted_urls (HttpPost url ctype body # es) = url # posted_urls es"
| "posted_urls (e # es) = posted_urls es"

datatype scan = ScanError | Scanned string

datatype flow = Continue | Break

text \<open>One pass through the body of the \<^verbatim>\<open>for\<close> loop, \<^verbatim>\<open>main.go\<close> lines 97 to 144.\<close>

definition iteration_A :: "('r, string) world \<Rightarrow> scan \<Rightarrow> event list \<times> flow" where
  "iteration_A w sc =
     (case sc of
        ScanError \<Rightarrow> ([Stdout ''ID: '', Println msg_input_error], Continue)
      | Scanned input \<Rightarrow>
          if input = ''exit'' then ([Stdout ''ID: '', Println msg_bye], Break)
          else
            (case Sscan w input of
               None \<Rightarrow> ([Stdout ''ID: '', Println msg_enter_number], Continue)
             | Some i \<Rightarrow>
                 let query = query_pre_A @ fmt_d i @ query_post_A;
                     sent = [Stdout ''ID: '',
                             HttpPost (post_url_A w) ''application/json'' query]
                 in
                 (case Post w (post_url_A w) ''application/json'' query of
                    Inl err \<Rightarrow> (sent @ [Logged (msg_post_failed @ err)], Continue)
                  | Inr resp \<Rightarrow>
                      (case Decode w resp of
                         Inl err \<Rightarrow> (sent @ [Logged (msg_decode_failed @ err)], Continue)
                       | Inr (greeting, errors) \<Rightarrow>
                           if length errors > 0
                           then (sent @ [Stdout (msg_server_error @ errors ! 0 @ [CHR 0x0A])],
                                 Continue)
                           else (sent @ [Stdout (msg_greeting @ greeting @ [CHR 0x0A, CHR 0x0A])],
                                 Continue)))))"

text \<open>Variant B, lines 133 to 184.\<close>

definition iteration_B :: "('r, GreetingResponse) world \<Rightarrow> scan \<Rightarrow> event list \<times> flow" where
  "iteration_B w sc =
     (case sc of
        ScanError \<Rightarrow> ([Stdout ''ID: '', Println msg_input_error], Continue)
      | Scanned input \<Rightarrow>
          if input = ''exit'' then ([Stdout ''ID: '', Println msg_bye], Break)
          else
            (case Sscan w input of
               None \<Rightarrow> ([Stdout ''ID: '', Println msg_enter_number], Continue)
             | Some i \<Rightarrow>
                 let query = query_pre_B @ fmt_d i @ query_post_B;
                     sent = [Stdout ''ID: '',
                             HttpPost (post_url_B w) ''application/json'' query]
                 in
                 (case Post w (post_url_B w) ''application/json'' query of
                    Inl err \<Rightarrow> (sent @ [Logged (msg_post_failed @ err)], Continue)
                  | Inr resp \<Rightarrow>
                      (case Decode w resp of
                         Inl err \<Rightarrow> (sent @ [Logged (msg_decode_failed @ err)], Continue)
                       | Inr (greeting, errors) \<Rightarrow>
                           if length errors > 0
                           then (sent @ [Stdout (msg_server_error @ errors ! 0 @ [CHR 0x0A])],
                                 Continue)
                           else (sent @
                                 [Stdout (msg_greeting @ Text greeting @ [CHR 0x0A]),
                                  Stdout (msg_flowers @ Flowers greeting @ [CHR 0x0A, CHR 0x0A])],
                                 Continue)))))"

text \<open>
  The loop over the lines standard input delivers. It is left by \<^verbatim>\<open>break\<close> alone
  (\<open>True\<close>); when the lines given are used up it has printed its prompt and waits in
  \<^verbatim>\<open>fmt.Scanln\<close> (\<open>False\<close>).
\<close>

fun loop_A :: "('r, string) world \<Rightarrow> scan list \<Rightarrow> event list \<times> bool" where
  "loop_A w [] = ([Stdout ''ID: ''], False)"
| "loop_A w (sc # rest) =
     (case iteration_A w sc of
        (es, Break) \<Rightarrow> (es, True)
      | (es, Continue) \<Rightarrow> (let (es', left) = loop_A w rest in (es @ es', left)))"

fun loop_B :: "('r, GreetingResponse) world \<Rightarrow> scan list \<Rightarrow> event list \<times> bool" where
  "loop_B w [] = ([Stdout ''ID: ''], False)"
| "loop_B w (sc # rest) =
     (case iteration_B w sc of
        (es, Break) \<Rightarrow> (es, True)
      | (es, Continue) \<Rightarrow> (let (es', left) = loop_B w rest in (es @ es', left)))"

text \<open>\<^verbatim>\<open>time.Second\<close>, a \<^verbatim>\<open>time.Duration\<close>, in nanoseconds.\<close>

definition Second :: int where
  "Second = 1000000000"

text \<open>
  The end of \<^verbatim>\<open>main\<close> (\<^verbatim>\<open>main.go\<close> lines 148 to 154, variant B lines 188 to 194):
  the events and the exit status. \<^verbatim>\<open>log.Fatalf\<close> logs and exits with status 1;
  returning from \<^verbatim>\<open>main\<close> exits with status 0.
\<close>

definition graceful_shutdown :: "('r, 'g) world \<Rightarrow> event list \<times> nat" where
  "graceful_shutdown w =
     (case Shutdown w (5 * Second) of
        Some err \<Rightarrow>
          ([Println msg_stopping, ServerShutdown (5 * Second),
            Logged (msg_shutdown_failed @ err)], 1)
      | None \<Rightarrow>
          ([Println msg_stopping, ServerShutdown (5 * Second), Println msg_stopped], 0))"

text \<open>
  A run of \<^verbatim>\<open>main\<close> from the start of the server on: the address the server is
  given, the events of the main goroutine, and the exit status (\<open>None\<close> while the
  loop waits for input).
\<close>

record run =
  Addr :: string
  trace :: "event list"
  status :: "nat option"

definition main_A :: "('r, string) world \<Rightarrow> scan list \<Rightarrow> run" where
  "main_A w stdin =
     (let (es, left) = loop_A w stdin in
      if left then
        (let (fs, code) = graceful_shutdown w in
         \<lparr>Addr = server_Addr w, trace = Println msg_banner_A # es @ fs, status = Some code\<rparr>)
      else \<lparr>Addr = server_Addr w, trace = Println msg_banner_A # es, status = None\<rparr>)"

definition main_B :: "('r, GreetingResponse) world \<Rightarrow> scan list \<Rightarrow> run" where
  "main_B w stdin =
     (let (es, left) = loop_B w stdin in
      if left then
        (let (fs, code) = graceful_shutdown w in
         \<lparr>Addr = server_Addr w, trace = Println msg_banner_B # es @ fs, status = Some code\<rparr>)
      else \<lparr>Addr = server_Addr w, trace = Println msg_banner_B # es, status = None\<rparr>)"


subsection \<open>Environments for the examples\<close>

text \<open>
  An environment in which \<^verbatim>\<open>PORT\<close> is as given, \<^verbatim>\<open>Sscan\<close> reads \<^verbatim>\<open>3\<close> and rejects
  every other line, no request gets through and the shutdown runs into its timeout.
\<close>

definition sample_world_A :: "string option \<Rightarrow> (unit, string) world" where
  "sample_world_A p =
     \<lparr>environ = (\<lambda>k. if k = ''PORT'' then p else None),
      Sscan = (\<lambda>s. if s = ''3'' then Some 3 else None),
      Post = (\<lambda>url ctype body. Inl ''connection refused''),
      Decode = (\<lambda>resp. Inl ''EOF''),
      Shutdown = (\<lambda>timeout. Some ''context deadline exceeded'')\<rparr>"

definition sample_world_B :: "string option \<Rightarrow> (unit, GreetingResponse) world" where
  "sample_world_B p =
     \<lparr>environ = (\<lambda>k. if k = ''PORT'' then p else None),
      Sscan = (\<lambda>s. if s = ''3'' then Some 3 else None),
      Post = (\<lambda>url ctype body. Inl ''connection refused''),
      Decode = (\<lambda>resp. Inl ''EOF''),
      Shutdown = (\<lambda>timeout. Some ''context deadline exceeded'')\<rparr>"

subsection \<open>What \<^verbatim>\<open>fmt.Sscan\<close> reads\<close>

text \<open>
  \<^verbatim>\<open>fmt.Sscan(input, &id)\<close> with \<^verbatim>\<open>id\<close> an \<^verbatim>\<open>int\<close> is a call into Go's library,
  described here as the library documents it: leading white space is skipped, an
  optional sign is read, then the digits that follow; the first character that is not
  part of the numeral ends the scan, and the rest of the string is not looked at
  (unlike \<^verbatim>\<open>Scanln\<close>, \<^verbatim>\<open>Sscan\<close> does not ask for the text to end there). With no
  digit to read the call returns an error.

  \<open>Sscan_int\<close> reads the digits as a decimal numeral. That is the library's result for
  a numeral that does not start with \<^verbatim>\<open>0\<close>, is not followed by an underscore and
  fits an \<^verbatim>\<open>int\<close>. On the other numerals (\<^verbatim>\<open>0x1f\<close>, \<^verbatim>\<open>017\<close>, \<^verbatim>\<open>1_000\<close>, twenty
  digits) the library reads another value or returns an error; nothing below is
  stated for such a line. Only the white space of ASCII is skipped here, where the
  library skips every Unicode space; the lines of the loop are those \<^verbatim>\<open>fmt.Scanln\<close>
  has read, which hold no white space at all, and on a line without white space the
  library reads no integer either when no digit follows the optional sign.
\<close>

definition ascii_space :: "char \<Rightarrow> bool" where
  "ascii_space c = (c \<in> set [CHR '' '', CHR 0x09, CHR 0x0A, CHR 0x0B, CHR 0x0C, CHR 0x0D])"

definition decimal_digit :: "char \<Rightarrow> bool" where
  "decimal_digit c = (c \<in> set ''0123456789'')"

definition skip_sign :: "string \<Rightarrow> string" where
  "skip_sign s = (case s of
       [] \<Rightarrow> []
     | c # cs \<Rightarrow> if c = CHR ''+'' \<or> c = CHR ''-'' then cs else s)"

text \<open>The digits the scan reads: those that follow the white space and the sign.\<close>

definition scanned_digits :: "string \<Rightarrow> string" where
  "scanned_digits s = takeWhile decimal_digit (skip_sign (dropWhile ascii_space s))"

definition negative :: "string \<Rightarrow> bool" where
  "negative s = (case dropWhile ascii_space s of [] \<Rightarrow> False | c # cs \<Rightarrow> c = CHR ''-'')"

definition Sscan_int :: "string \<Rightarrow> int option" where
  "Sscan_int s =
     (let ds = scanned_digits s in
      if ds = [] then None
      else if negative s then Some (- int (dec_val ds))
      else Some (int (dec_val ds)))"

text \<open>A line that is a decimal integer as a whole: an optional sign, then digits and
  nothing else.\<close>

definition decimal_integer :: "string \<Rightarrow> bool" where
  "decimal_integer s = (skip_sign s \<noteq> [] \<and> list_all decimal_digit (skip_sign s))"

text \<open>The sample environments with the scan above in place of their own.\<close>

definition scanning_world_A :: "(unit, string) world" where
  "scanning_world_A = (sample_world_A None)\<lparr>Sscan := Sscan_int\<rparr>"

definition scanning_world_B :: "(unit, GreetingResponse) world" where
  "scanning_world_B = (sample_world_B None)\<lparr>Sscan := Sscan_int\<rparr>"

section \<open>Decimal formatting\<close>

declare utoa.simps [simp del]

lemma digit_val_digit: "d < 10 \<Longrightarrow> digit_val (digit d) = d"
proof -
  assume "d < 10"
  then have "d \<in> {0, 1, 2, 3, 4, 5, 6, 7, 8, 9}" by auto
  then show ?thesis by (auto simp: digit_val_def digit_def)
qed

lemma digit_not_minus: "d < 10 \<Longrightarrow> digit d \<noteq> CHR ''-''"
proof -
  assume "d < 10"
  then have "d \<in> {0, 1, 2, 3, 4, 5, 6, 7, 8, 9}" by auto
  then show ?thesis by (auto simp: digit_def)
qed

lemma dec_val_snoc: "dec_val (s @ [c]) = 10 * dec_val s + digit_val c"
  by (simp add: dec_val_def)

lemma dec_val_utoa: "dec_val (utoa n) = n"
proof (induction n rule: utoa.induct)
  case (1 n)
  show ?case
  proof (cases "n < 10")
    case True
    then show ?thesis
      by (simp add: utoa.simps [of n] dec_val_def digit_val_digit)
  next
    case False
    with 1 have "dec_val (utoa (n div 10)) = n div 10" by simp
    with False show ?thesis
      by (simp add: utoa.simps [of n] dec_val_snoc digit_val_digit)
  qed
qed

lemma utoa_first: "\<exists>c cs. utoa n = c # cs \<and> c \<noteq> CHR ''-''"
proof (induction n rule: utoa.induct)
  case (1 n)
  show ?case
  proof (cases "n < 10")
    case True
    then show ?thesis by (simp add: utoa.simps [of n] digit_not_minus)
  next
    case False
    with 1 obtain c cs where "utoa (n div 10) = c # cs" and "c \<noteq> CHR ''-''" by blast
    with False show ?thesis by (simp add: utoa.simps [of n])
  qed
qed

text \<open>\<open>fmt_d\<close> writes the number that \<open>read_d\<close> reads: it is the decimal numeral of
  its argument.\<close>

lemma read_d_fmt_d: "read_d (fmt_d i) = i"
proof (cases "i < 0")
  case True
  then show ?thesis by (simp add: read_d_def fmt_d_def dec_val_utoa)
next
  case False
  obtain c cs where u: "utoa (nat i) = c # cs" and c: "c \<noteq> CHR ''-''"
    using utoa_first by blast
  have "dec_val (c # cs) = nat i" using dec_val_utoa [of "nat i"] u by simp
  with False u c show ?thesis by (simp add: read_d_def fmt_d_def)
qed

lemma fmt_d_0: "fmt_d 0 = ''0''"
  by (simp add: fmt_d_def utoa.simps [of 0] digit_def)

lemma fmt_d_11: "fmt_d 11 = ''11''"
  by (simp add: fmt_d_def utoa.simps [of 11] utoa.simps [of 1] utoa.simps [of "Suc 0"] digit_def)

lemma fmt_d_minus_7: "fmt_d (- 7) = ''-7''"
  by (simp add: fmt_d_def utoa.simps [of 7] digit_def)

section \<open>Properties of the Lookup Resolver\<close>

lemma greetings_catalog_A_length: "length (greetings catalog_A) = 10"
  by (simp add: catalog_A_def)

lemma greetings_catalog_B_length: "length (greetings catalog_B) = 10"
  by (simp add: catalog_B_def)

lemma flowers_catalog_B_length: "length (flowers catalog_B) = 10"
  by (simp add: catalog_B_def)

lemma arg_of_args_id: "assert_int (map_index (Args (args_id (GoInt i))) ''id'') = Some i"
  by (simp add: args_id_def map_index_def)

lemma Resolve_A_in_range:
  assumes "1 \<le> i" and "i \<le> int (length (greetings s))"
    and "assert_int (map_index (Args p) ''id'') = Some i"
  shows "Resolve_A p s =
    (Value (greetings s ! nat (i - 1)),
     s\<lparr>reads := reads s @ [Len_greetings, Index_greetings (i - 1)]\<rparr>)"
  using assms
  by (simp add: Resolve_A_def len_greetings_def index_greetings_def slice_index_def)

lemma Resolve_B_in_range:
  assumes "1 \<le> i" and "i \<le> int (length (greetings s))" and "i \<le> int (length (flowers s))"
    and "assert_int (map_index (Args p) ''id'') = Some i"
  shows "Resolve_B p s =
    (Value \<lparr>Text = greetings s ! nat (i - 1), Flowers = flowers s ! nat (i - 1)\<rparr>,
     s\<lparr>reads := reads s @ [Len_greetings, Index_greetings (i - 1), Index_flowers (i - 1)]\<rparr>)"
  using assms
  by (simp add: Resolve_B_def len_greetings_def index_greetings_def index_flowers_def
      slice_index_def)

text \<open>
  Claim C1. For every \<^verbatim>\<open>id\<close> from 1 to 10 the resolver succeeds with the catalog entry
  at position \<^verbatim>\<open>id-1\<close>: the greeting in variant A, the greeting and the flowers in
  variant B. This holds whatever has been read before (any ghost log \<open>r\<close>).
\<close>

theorem resolve_in_range:
  assumes "1 \<le> i" and "i \<le> 10"
  shows "fst (Resolve_A (args_id (GoInt i)) (catalog_A\<lparr>reads := r\<rparr>)) =
           Value (greetings catalog_A ! nat (i - 1)) \<and>
         fst (Resolve_B (args_id (GoInt i)) (catalog_B\<lparr>reads := r\<rparr>)) =
           Value \<lparr>Text = greetings catalog_B ! nat (i - 1),
                  Flowers = flowers catalog_B ! nat (i - 1)\<rparr>"
proof -
  have a: "i \<le> int (length (greetings (catalog_A\<lparr>reads := r\<rparr>)))"
    using assms(2) by (simp add: greetings_catalog_A_length)
  have b: "i \<le> int (length (greetings (catalog_B\<lparr>reads := r\<rparr>)))"
    using assms(2) by (simp add: greetings_catalog_B_length)
  have c: "i \<le> int (length (flowers (catalog_B\<lparr>reads := r\<rparr>)))"
    using assms(2) by (simp add: flowers_catalog_B_length)
  show ?thesis
    by (simp add: Resolve_A_in_range [OF assms(1) a arg_of_args_id]
        Resolve_B_in_range [OF assms(1) b c arg_of_args_id])
qed

theorem resolve_in_range_witness:
  "fst (Resolve_A (args_id (GoInt 3)) catalog_A) = Value greeting_3 \<and>
   fst (Resolve_B (args_id (GoInt 10)) catalog_B) =
     Value \<lparr>Text = greeting_10, Flowers = flower_10\<rparr>"
  using resolve_in_range [of 3 "[]"] resolve_in_range [of 10 "[]"]
  by (simp add: catalog_A_def catalog_B_def)

lemma Resolve_A_out_of_range:
  assumes "i < 1 \<or> int (length (greetings s)) < i"
    and "assert_int (map_index (Args p) ''id'') = Some i"
  shows "fst (Resolve_A p s) = Failure (NotFound i)"
  using assms by (auto simp: Resolve_A_def len_greetings_def)

lemma Resolve_B_out_of_range:
  assumes "i < 1 \<or> int (length (greetings s)) < i"
    and "assert_int (map_index (Args p) ''id'') = Some i"
  shows "fst (Resolve_B p s) = Failure (NotFound i)"
  using assms by (auto simp: Resolve_B_def len_greetings_def)

text \<open>
  Claim C2. For every \<^verbatim>\<open>id\<close> below 1 or above 10 the resolver fails with the
  not-found error and returns no value; the message of the error holds the decimal
  numeral of \<^verbatim>\<open>id\<close> between its two fixed parts.
\<close>

theorem resolve_out_of_range:
  assumes "i < 1 \<or> 10 < i"
  shows "fst (Resolve_A (args_id (GoInt i)) (catalog_A\<lparr>reads := r\<rparr>)) = Failure (NotFound i) \<and>
         fst (Resolve_B (args_id (GoInt i)) (catalog_B\<lparr>reads := r\<rparr>)) = Failure (NotFound i) \<and>
         Error (NotFound i) = msg_not_found_pre @ fmt_d i @ msg_not_found_post \<and>
         read_d (fmt_d i) = i"
proof -
  have a: "i < 1 \<or> int (length (greetings (catalog_A\<lparr>reads := r\<rparr>))) < i"
    using assms by (simp add: greetings_catalog_A_length)
  have b: "i < 1 \<or> int (length (greetings (catalog_B\<lparr>reads := r\<rparr>))) < i"
    using assms by (simp add: greetings_catalog_B_length)
  show ?thesis
    by (simp add: Resolve_A_out_of_range [OF a arg_of_args_id]
        Resolve_B_out_of_range [OF b arg_of_args_id] Error_def read_d_fmt_d)
qed

theorem resolve_out_of_range_witness:
  "fst (Resolve_A (args_id (GoInt 0)) catalog_A) = Failure (NotFound 0) \<and>
   fst (Resolve_B (args_id (GoInt 11)) catalog_B) = Failure (NotFound 11) \<and>
   Error (NotFound 0) = msg_not_found_pre @ ''0'' @ msg_not_found_post \<and>
   Error (NotFound 11) = msg_not_found_pre @ ''11'' @ msg_not_found_post \<and>
   Error (NotFound (- 7)) = msg_not_found_pre @ ''-7'' @ msg_not_found_post"
  using resolve_out_of_range [of 0 "[]"] resolve_out_of_range [of 11 "[]"]
    resolve_out_of_range [of "- 7" "[]"]
  by (simp add: catalog_A_def catalog_B_def fmt_d_0 fmt_d_11 fmt_d_minus_7)

text \<open>
  Claim C3. When the value bound to \<^verbatim>\<open>id\<close> is not an \<^verbatim>\<open>int\<close> (or no value is bound),
  the resolver fails with the validation error and returns no value, and it leaves the
  state as it was, ghost log included: it has read neither the length nor an element
  of a catalog. This holds for every state, so the result does not depend on the
  catalogs.
\<close>

theorem resolve_non_integer:
  assumes "\<forall>i. map_index (Args p) ''id'' \<noteq> GoInt i"
  shows "Resolve_A p sa = (Failure ValidationError, sa) \<and>
         Resolve_B p sb = (Failure ValidationError, sb) \<and>
         reads (snd (Resolve_A p sa)) = reads sa \<and>
         reads (snd (Resolve_B p sb)) = reads sb"
proof -
  have "assert_int (map_index (Args p) ''id'') = None"
    using assms by (cases "map_index (Args p) ''id''") simp_all
  then show ?thesis by (simp add: Resolve_A_def Resolve_B_def)
qed

theorem resolve_non_integer_witness:
  "Resolve_A (args_id (GoString ''abc'')) catalog_A = (Failure ValidationError, catalog_A) \<and>
   Resolve_B (args_id (GoFloat64 3 (- 1))) catalog_B = (Failure ValidationError, catalog_B) \<and>
   Resolve_A \<lparr>Args = Map.empty\<rparr> catalog_A = (Failure ValidationError, catalog_A)"
  using resolve_non_integer [of "args_id (GoString ''abc'')" catalog_A catalog_B]
    resolve_non_integer [of "args_id (GoFloat64 3 (- 1))" catalog_A catalog_B]
    resolve_non_integer [of "\<lparr>Args = Map.empty\<rparr>" catalog_A catalog_B]
  by (simp add: args_id_def map_index_def)

lemma Resolve_A_no_panic: "fst (Resolve_A p s) \<noteq> Panic e"
  by (auto simp: Resolve_A_def len_greetings_def index_greetings_def slice_index_def
      split: option.splits)

text \<open>The guard compares with \<^verbatim>\<open>len(greetings)\<close> alone: variant B is safe as long as
  \<^verbatim>\<open>flowers\<close> is no shorter, and panics on a shorter one.\<close>

lemma Resolve_B_no_panic:
  "length (greetings s) \<le> length (flowers s) \<Longrightarrow> fst (Resolve_B p s) \<noteq> Panic e"
  by (auto simp: Resolve_B_def len_greetings_def index_greetings_def index_flowers_def
      slice_index_def split: option.splits)

lemma Resolve_B_panics_on_short_flowers:
  "fst (Resolve_B (args_id (GoInt 2)) \<lparr>greetings = [a, b], reads = [], flowers = [c]\<rparr>) =
     Panic (IndexOutOfRange 1 1)"
  by (simp add: Resolve_B_def args_id_def map_index_def len_greetings_def index_greetings_def
      index_flowers_def slice_index_def)

text \<open>
  Claim C10. On the catalogs of the programs the resolver never panics, whatever the
  arguments: both slices have ten entries, so the index \<^verbatim>\<open>id-1\<close> that passed the guard
  \<^verbatim>\<open>1 <= id <= len(greetings)\<close> is in range for \<^verbatim>\<open>flowers\<close> as well.
\<close>

theorem resolve_never_panics:
  "(\<forall>e. fst (Resolve_A p (catalog_A\<lparr>reads := r\<rparr>)) \<noteq> Panic e) \<and>
   (\<forall>e. fst (Resolve_B p (catalog_B\<lparr>reads := r\<rparr>)) \<noteq> Panic e) \<and>
   length (greetings catalog_A) = 10 \<and>
   length (greetings catalog_B) = 10 \<and>
   length (flowers catalog_B) = length (greetings catalog_B)"
  by (simp add: Resolve_A_no_panic Resolve_B_no_panic greetings_catalog_A_length
      greetings_catalog_B_length flowers_catalog_B_length)

lemma Resolve_A_keeps_globals: "snd (Resolve_A p s) = s\<lparr>reads := reads (snd (Resolve_A p s))\<rparr>"
  by (auto simp: Resolve_A_def len_greetings_def index_greetings_def
      split: option.splits sum.splits)

lemma Resolve_B_keeps_globals: "snd (Resolve_B p s) = s\<lparr>reads := reads (snd (Resolve_B p s))\<rparr>"
  by (auto simp: Resolve_B_def len_greetings_def index_greetings_def index_flowers_def
      split: option.splits sum.splits)

lemma Resolve_A_snapshot:
  assumes "Args p ''id'' = Args p' ''id''" and "greetings s = greetings s'"
  shows "fst (Resolve_A p s) = fst (Resolve_A p' s')"
proof -
  have "map_index (Args p) ''id'' = map_index (Args p') ''id''"
    using assms(1) by (simp add: map_index_def)
  with assms(2) show ?thesis
    by (auto simp: Resolve_A_def len_greetings_def index_greetings_def
        split: option.splits sum.splits)
qed

lemma Resolve_B_snapshot:
  assumes "Args p ''id'' = Args p' ''id''" and "greetings s = greetings s'"
    and "flowers s = flowers s'"
  shows "fst (Resolve_B p s) = fst (Resolve_B p' s')"
proof -
  have "map_index (Args p) ''id'' = map_index (Args p') ''id''"
    using assms(1) by (simp add: map_index_def)
  with assms(2,3) show ?thesis
    by (auto simp: Resolve_B_def len_greetings_def index_greetings_def index_flowers_def
        split: option.splits sum.splits)
qed

text \<open>In a sequence of resolutions each one answers as it would on the state the
  sequence started in, and the catalogs at the end are those of the start.\<close>

lemma resolutions_A_outcomes:
  "fst (resolutions_A ps s) = map (\<lambda>p. fst (Resolve_A p s)) ps \<and>
   greetings (snd (resolutions_A ps s)) = greetings s"
proof (induction ps arbitrary: s)
  case Nil
  show ?case by simp
next
  case (Cons p ps)
  obtain r s1 where r: "Resolve_A p s = (r, s1)" by (cases "Resolve_A p s")
  have "greetings (snd (Resolve_A p s)) = greetings (s\<lparr>reads := reads (snd (Resolve_A p s))\<rparr>)"
    using Resolve_A_keeps_globals [of p s] by simp
  then have g: "greetings s1 = greetings s"
    using r by simp
  have "\<And>q. fst (Resolve_A q s1) = fst (Resolve_A q s)"
    using Resolve_A_snapshot [OF refl g] by simp
  with Cons [of s1] r g show ?case
    by (simp add: split_beta)
qed

lemma resolutions_B_outcomes:
  "fst (resolutions_B ps s) = map (\<lambda>p. fst (Resolve_B p s)) ps \<and>
   greetings (snd (resolutions_B ps s)) = greetings s \<and>
   flowers (snd (resolutions_B ps s)) = flowers s"
proof (induction ps arbitrary: s)
  case Nil
  show ?case by simp
next
  case (Cons p ps)
  obtain r s1 where r: "Resolve_B p s = (r, s1)" by (cases "Resolve_B p s")
  have k: "snd (Resolve_B p s) = s\<lparr>reads := reads (snd (Resolve_B p s))\<rparr>"
    by (rule Resolve_B_keeps_globals)
  have "greetings (snd (Resolve_B p s)) = greetings (s\<lparr>reads := reads (snd (Resolve_B p s))\<rparr>)"
    using k by simp
  then have g: "greetings s1 = greetings s"
    using r by simp
  have "flowers (snd (Resolve_B p s)) = flowers (s\<lparr>reads := reads (snd (Resolve_B p s))\<rparr>)"
    using k by simp
  then have f: "flowers s1 = flowers s"
    using r by simp
  have "\<And>q. fst (Resolve_B q s1) = fst (Resolve_B q s)"
    using Resolve_B_snapshot [OF refl g f] by simp
  with Cons [of s1] r g f show ?case
    by (simp add: split_beta)
qed

text \<open>
  Claim C6. The outcome of a resolution is a function of the \<^verbatim>\<open>id\<close> argument and of
  the catalogs alone: two resolutions with the same \<^verbatim>\<open>id\<close>, on states with the same
  catalogs, have the same outcome, whatever was resolved before. A resolution leaves
  every package-level variable as it was (only the ghost log grows), and so does a
  sequence of resolutions, each of which answers as on the first state.
\<close>

theorem resolve_deterministic_and_pure:
  assumes "Args p ''id'' = Args p' ''id''"
    and "greetings sa = greetings sa'"
    and "greetings sb = greetings sb'" and "flowers sb = flowers sb'"
  shows "fst (Resolve_A p sa) = fst (Resolve_A p' sa') \<and>
         fst (Resolve_B p sb) = fst (Resolve_B p' sb') \<and>
         snd (Resolve_A p sa) = sa\<lparr>reads := reads (snd (Resolve_A p sa))\<rparr> \<and>
         snd (Resolve_B p sb) = sb\<lparr>reads := reads (snd (Resolve_B p sb))\<rparr> \<and>
         fst (resolutions_A ps sa) = map (\<lambda>q. fst (Resolve_A q sa)) ps \<and>
         greetings (snd (resolutions_A ps sa)) = greetings sa \<and>
         fst (resolutions_B ps sb) = map (\<lambda>q. fst (Resolve_B q sb)) ps \<and>
         greetings (snd (resolutions_B ps sb)) = greetings sb \<and>
         flowers (snd (resolutions_B ps sb)) = flowers sb"
  using Resolve_A_snapshot [OF assms(1,2)] Resolve_B_snapshot [OF assms(1,3,4)]
    Resolve_A_keeps_globals [of p sa] Resolve_B_keeps_globals [of p sb]
    resolutions_A_outcomes [of ps sa] resolutions_B_outcomes [of ps sb]
  by simp

theorem resolve_deterministic_and_pure_witness:
  "fst (Resolve_A (args_id (GoInt 2)) catalog_A) =
     fst (Resolve_A (args_id (GoInt 2)) (snd (Resolve_A (args_id (GoInt 2)) catalog_A))) \<and>
   fst (Resolve_B (args_id (GoInt 2)) catalog_B) =
     fst (Resolve_B (args_id (GoInt 2)) (snd (Resolve_B (args_id (GoInt 7)) catalog_B))) \<and>
   greetings (snd (Resolve_A (args_id (GoInt 2)) catalog_A)) = greetings catalog_A \<and>
   flowers (snd (Resolve_B (args_id (GoInt 2)) catalog_B)) = flowers catalog_B"
  using resolve_deterministic_and_pure [of "args_id (GoInt 2)" "args_id (GoInt 2)" catalog_A
      "snd (Resolve_A (args_id (GoInt 2)) catalog_A)" catalog_B
      "snd (Resolve_B (args_id (GoInt 7)) catalog_B)" "[]"]
  by (simp add: Resolve_A_def Resolve_B_def args_id_def map_index_def len_greetings_def
      index_greetings_def index_flowers_def slice_index_def catalog_A_def catalog_B_def)

section \<open>Properties of the Schema Definition\<close>

text \<open>
  Claim C4, as the programs declare it. The root type \<^verbatim>\<open>Query\<close> has the single field
  \<^verbatim>\<open>greeting\<close> with the argument \<^verbatim>\<open>id: Int!\<close>. Its result type is \<^verbatim>\<open>String\<close> in
  variant A and the object type \<^verbatim>\<open>Greeting\<close> in variant B, neither wrapped in
  \<^verbatim>\<open>NewNonNull\<close>; the fields \<^verbatim>\<open>text\<close> and \<^verbatim>\<open>flowers\<close> of \<^verbatim>\<open>Greeting\<close> are
  \<^verbatim>\<open>String!\<close>.
\<close>

theorem schema_declares_greeting:
  "signatures rootQuery_A = [(''greeting'', [(''id'', ''Int!'')], ''String'')] \<and>
   signatures rootQuery_B = [(''greeting'', [(''id'', ''Int!'')], ''Greeting'')] \<and>
   field_Args greetingField_A = [(''id'', NewNonNull graphql_Int)] \<and>
   field_Args greetingField_B = [(''id'', NewNonNull graphql_Int)] \<and>
   field_Type greetingField_A = graphql_String \<and>
   field_Type greetingField_B = greetingType \<and>
   signatures greetingType = [(''text'', [], ''String!''), (''flowers'', [], ''String!'')]"
  by (simp add: rootQuery_A_def rootQuery_B_def greetingField_A_def greetingField_B_def
      greetingType_def)

text \<open>
  Claim C4 as the specification words it asks for a non-null result type. In neither
  variant is the type of the field \<^verbatim>\<open>greeting\<close> a non-null type.
\<close>

theorem schema_result_type_counterexample:
  "\<not> non_null (field_Type greetingField_A) \<and> \<not> non_null (field_Type greetingField_B)"
  by (simp add: greetingField_A_def greetingField_B_def greetingType_def)

section \<open>Properties of the configuration\<close>

lemma port_unset: "environ w ''PORT'' = None \<Longrightarrow> port w = ''8080''"
  by (simp add: port_def Getenv_def)

lemma port_empty: "environ w ''PORT'' = Some [] \<Longrightarrow> port w = ''8080''"
  by (simp add: port_def Getenv_def)

lemma port_set: "environ w ''PORT'' = Some p \<Longrightarrow> p \<noteq> [] \<Longrightarrow> port w = p"
  by (simp add: port_def Getenv_def)

lemma Addr_main_A: "Addr (main_A w stdin) = server_Addr w"
  by (simp add: main_A_def split_beta)

lemma Addr_main_B: "Addr (main_B w stdin) = server_Addr w"
  by (simp add: main_B_def split_beta)

text \<open>
  Claim C8. The port is \<^verbatim>\<open>8080\<close> when \<^verbatim>\<open>PORT\<close> is unset or empty and the value of
  \<^verbatim>\<open>PORT\<close> otherwise; it depends on no other variable of the environment; the
  address the server of either variant is given is a colon followed by the port.
\<close>

theorem port_from_environment:
  "(environ w ''PORT'' = None \<or> environ w ''PORT'' = Some [] \<longrightarrow>
      port w = ''8080'' \<and> server_Addr w = '':8080'') \<and>
   (\<forall>p. environ w ''PORT'' = Some p \<and> p \<noteq> [] \<longrightarrow> port w = p \<and> server_Addr w = '':'' @ p) \<and>
   (environ w ''PORT'' = environ w' ''PORT'' \<longrightarrow> port w = port w') \<and>
   Addr (main_A wa stdin) = '':'' @ port wa \<and>
   Addr (main_B wb stdin) = '':'' @ port wb"
proof (intro conjI)
  show "environ w ''PORT'' = None \<or> environ w ''PORT'' = Some [] \<longrightarrow>
      port w = ''8080'' \<and> server_Addr w = '':8080''"
    by (auto simp: port_unset port_empty server_Addr_def)
  show "\<forall>p. environ w ''PORT'' = Some p \<and> p \<noteq> [] \<longrightarrow>
      port w = p \<and> server_Addr w = '':'' @ p"
    by (auto simp: port_def Getenv_def server_Addr_def)
  show "environ w ''PORT'' = environ w' ''PORT'' \<longrightarrow> port w = port w'"
    by (simp add: port_def Getenv_def)
  show "Addr (main_A wa stdin) = '':'' @ port wa"
    by (simp add: Addr_main_A server_Addr_def)
  show "Addr (main_B wb stdin) = '':'' @ port wb"
    by (simp add: Addr_main_B server_Addr_def)
qed

theorem port_from_environment_witness:
  "server_Addr (sample_world_A None) = '':8080'' \<and>
   server_Addr (sample_world_A (Some [])) = '':8080'' \<and>
   server_Addr (sample_world_A (Some ''9090'')) = '':9090''"
  using port_from_environment [of "sample_world_A None" "sample_world_A None"
      "sample_world_A None" "[]" "sample_world_B None"]
    port_from_environment [of "sample_world_A (Some [])" "sample_world_A None"
      "sample_world_A None" "[]" "sample_world_B None"]
    port_from_environment [of "sample_world_A (Some ''9090'')" "sample_world_A None"
      "sample_world_A None" "[]" "sample_world_B None"]
  by (simp add: sample_world_A_def sample_world_B_def)

section \<open>Properties of the command-line loop\<close>

lemma posted_urls_append: "posted_urls (es @ fs) = posted_urls es @ posted_urls fs"
  by (induction es rule: posted_urls.induct) simp_all

lemma posted_urls_iteration_A: "set (posted_urls (fst (iteration_A w sc))) \<subseteq> {post_url_A w}"
  by (auto simp: iteration_A_def Println_def Let_def
      split: scan.splits option.splits sum.splits prod.splits)

lemma posted_urls_iteration_B: "set (posted_urls (fst (iteration_B w sc))) \<subseteq> {post_url_B w}"
  by (auto simp: iteration_B_def Println_def Let_def
      split: scan.splits option.splits sum.splits prod.splits)

lemma posted_urls_loop_A: "set (posted_urls (fst (loop_A w stdin))) \<subseteq> {post_url_A w}"
proof (induction stdin)
  case Nil
  show ?case by simp
next
  case (Cons sc rest)
  obtain es f where it: "iteration_A w sc = (es, f)" by (cases "iteration_A w sc")
  have "set (posted_urls es) \<subseteq> {post_url_A w}"
    using posted_urls_iteration_A [of w sc] it by simp
  with Cons it show ?case
    by (cases f) (auto simp: posted_urls_append split_beta)
qed

lemma posted_urls_loop_B: "set (posted_urls (fst (loop_B w stdin))) \<subseteq> {post_url_B w}"
proof (induction stdin)
  case Nil
  show ?case by simp
next
  case (Cons sc rest)
  obtain es f where it: "iteration_B w sc = (es, f)" by (cases "iteration_B w sc")
  have "set (posted_urls es) \<subseteq> {post_url_B w}"
    using posted_urls_iteration_B [of w sc] it by simp
  with Cons it show ?case
    by (cases f) (auto simp: posted_urls_append split_beta)
qed

lemma posted_urls_shutdown: "posted_urls (fst (graceful_shutdown w)) = []"
  by (simp add: graceful_shutdown_def Println_def split: option.splits)

lemma posted_urls_main_A: "set (posted_urls (trace (main_A w stdin))) \<subseteq> {post_url_A w}"
  using posted_urls_loop_A [of w stdin]
  by (simp add: main_A_def split_beta Println_def posted_urls_append posted_urls_shutdown)

lemma posted_urls_main_B: "set (posted_urls (trace (main_B w stdin))) \<subseteq> {post_url_B w}"
  using posted_urls_loop_B [of w stdin]
  by (simp add: main_B_def split_beta Println_def posted_urls_append posted_urls_shutdown)

text \<open>
  Claim C5. In variant A every request of a run goes to \<^verbatim>\<open>http://localhost:8080/\<close>,
  whatever the environment, while the server is given the address \<^verbatim>\<open>:\<close> and the port
  read from \<^verbatim>\<open>PORT\<close>; so with \<^verbatim>\<open>PORT\<close> set to a port other than \<^verbatim>\<open>8080\<close> the requests
  do not go to the address of that port. In variant B every request goes to the URL
  built from the configured port.
\<close>

theorem cli_A_posts_to_port_8080:
  "set (posted_urls (trace (main_A wa stdin))) \<subseteq> {''http://localhost:8080/''} \<and>
   Addr (main_A wa stdin) = '':'' @ port wa \<and>
   (\<forall>p. environ wa ''PORT'' = Some p \<and> p \<noteq> [] \<and> p \<noteq> ''8080'' \<longrightarrow>
      Addr (main_A wa stdin) = '':'' @ p \<and>
      ''http://localhost:8080/'' \<noteq> ''http://localhost:'' @ p @ ''/'') \<and>
   set (posted_urls (trace (main_B wb stdin))) \<subseteq> {''http://localhost:'' @ port wb @ ''/''} \<and>
   Addr (main_B wb stdin) = '':'' @ port wb"
  using posted_urls_main_A [of wa stdin] posted_urls_main_B [of wb stdin]
  by (auto simp: post_url_A_def post_url_B_def Addr_main_A Addr_main_B server_Addr_def port_set)

theorem cli_A_posts_to_port_8080_witness:
  "posted_urls (trace (main_A (sample_world_A (Some ''9090'')) [Scanned ''3'', Scanned ''exit''])) =
     [''http://localhost:8080/''] \<and>
   Addr (main_A (sample_world_A (Some ''9090'')) [Scanned ''3'', Scanned ''exit'']) = '':9090'' \<and>
   posted_urls (trace (main_B (sample_world_B (Some ''9090'')) [Scanned ''3'', Scanned ''exit''])) =
     [''http://localhost:9090/''] \<and>
   Addr (main_B (sample_world_B (Some ''9090'')) [Scanned ''3'', Scanned ''exit'']) = '':9090''"
  using cli_A_posts_to_port_8080 [of "sample_world_A (Some ''9090'')"
      "[Scanned ''3'', Scanned ''exit'']" "sample_world_B (Some ''9090'')"]
  by (simp add: sample_world_A_def sample_world_B_def main_A_def main_B_def iteration_A_def
      iteration_B_def graceful_shutdown_def post_url_A_def post_url_B_def port_def Getenv_def
      Println_def server_Addr_def)

lemma loop_A_prompts_first: "hd (fst (loop_A w stdin)) = Stdout ''ID: ''"
  by (cases stdin)
    (auto simp: iteration_A_def Let_def split_beta
      split: scan.splits option.splits sum.splits flow.splits)

lemma loop_B_prompts_first: "hd (fst (loop_B w stdin)) = Stdout ''ID: ''"
  by (cases stdin)
    (auto simp: iteration_B_def Let_def split_beta
      split: scan.splits option.splits sum.splits flow.splits)

lemma iteration_A_rejects:
  "Sscan w input = None \<Longrightarrow> input \<noteq> ''exit'' \<Longrightarrow>
   iteration_A w (Scanned input) = ([Stdout ''ID: '', Println msg_enter_number], Continue)"
  by (simp add: iteration_A_def)

lemma iteration_B_rejects:
  "Sscan w input = None \<Longrightarrow> input \<noteq> ''exit'' \<Longrightarrow>
   iteration_B w (Scanned input) = ([Stdout ''ID: '', Println msg_enter_number], Continue)"
  by (simp add: iteration_B_def)

lemma iteration_A_exit:
  "iteration_A w (Scanned ''exit'') = ([Stdout ''ID: '', Println msg_bye], Break)"
  by (simp add: iteration_A_def)

lemma iteration_B_exit:
  "iteration_B w (Scanned ''exit'') = ([Stdout ''ID: '', Println msg_bye], Break)"
  by (simp add: iteration_B_def)

lemma Sscan_int_rejects: "scanned_digits input = [] \<Longrightarrow> Sscan_int input = None"
  by (simp add: Sscan_int_def)

text \<open>A line with no digit after its sign is not a decimal integer: the lines of the
  theorem below are among those the specification calls non-numeric.\<close>

lemma no_digits_not_decimal_integer:
  assumes "scanned_digits input = []"
  shows "\<not> decimal_integer input"
proof
  assume d: "decimal_integer input"
  then obtain c cs where s: "skip_sign input = c # cs" and c: "decimal_digit c"
    by (cases "skip_sign input") (auto simp: decimal_integer_def)
  have n: "\<not> ascii_space c"
    using c by (auto simp: ascii_space_def decimal_digit_def)
  have "input \<noteq> []" using s by (auto simp: skip_sign_def)
  then obtain a as where i: "input = a # as" by (cases input) auto
  have "\<not> ascii_space a"
    using s i n by (auto simp: skip_sign_def ascii_space_def split: if_splits)
  then have "dropWhile ascii_space input = input" using i by simp
  with assms s c show False by (simp add: scanned_digits_def)
qed

text \<open>
  Claim C7, as the programs behave. A line with no digit after its optional sign (and
  that is not \<^verbatim>\<open>exit\<close>) is one \<^verbatim>\<open>fmt.Sscan\<close> reads no integer from: the loop prints
  its message and goes on with the next line, which starts with the prompt again, and
  the pass posts no request. On the line \<^verbatim>\<open>exit\<close> the loop ends, with no request and
  without reading further lines.
\<close>

theorem cli_rejects_lines_without_numeral:
  assumes "Sscan wa = Sscan_int" and "Sscan wb = Sscan_int"
    and "scanned_digits input = []" and "input \<noteq> ''exit''"
  shows "loop_A wa (Scanned input # rest) =
           ([Stdout ''ID: '', Println msg_enter_number] @ fst (loop_A wa rest),
            snd (loop_A wa rest)) \<and>
         posted_urls (fst (iteration_A wa (Scanned input))) = [] \<and>
         hd (fst (loop_A wa rest)) = Stdout ''ID: '' \<and>
         loop_A wa (Scanned ''exit'' # rest) = ([Stdout ''ID: '', Println msg_bye], True) \<and>
         loop_B wb (Scanned input # rest) =
           ([Stdout ''ID: '', Println msg_enter_number] @ fst (loop_B wb rest),
            snd (loop_B wb rest)) \<and>
         posted_urls (fst (iteration_B wb (Scanned input))) = [] \<and>
         hd (fst (loop_B wb rest)) = Stdout ''ID: '' \<and>
         loop_B wb (Scanned ''exit'' # rest) = ([Stdout ''ID: '', Println msg_bye], True) \<and>
         \<not> decimal_integer input"
proof -
  have ra: "Sscan wa input = None"
    using assms(1,3) by (simp add: Sscan_int_rejects)
  have rb: "Sscan wb input = None"
    using assms(2,3) by (simp add: Sscan_int_rejects)
  note a = iteration_A_rejects [OF ra assms(4)]
  note b = iteration_B_rejects [OF rb assms(4)]
  show ?thesis
    by (simp add: a b Println_def split_beta no_digits_not_decimal_integer [OF assms(3)]
        loop_A_prompts_first loop_B_prompts_first iteration_A_exit iteration_B_exit)
qed

theorem cli_rejects_lines_without_numeral_witness:
  "fst (loop_A scanning_world_A [Scanned ''abc'', Scanned ''exit'', Scanned ''3'']) =
     [Stdout ''ID: '', Println msg_enter_number, Stdout ''ID: '', Println msg_bye] \<and>
   snd (loop_A scanning_world_A [Scanned ''abc'', Scanned ''exit'', Scanned ''3'']) \<and>
   fst (loop_B scanning_world_B [Scanned ''abc'', Scanned ''exit'', Scanned ''3'']) =
     [Stdout ''ID: '', Println msg_enter_number, Stdout ''ID: '', Println msg_bye] \<and>
   scanned_digits ''abc'' = []"
  using cli_rejects_lines_without_numeral [of scanning_world_A scanning_world_B "''abc''"
      "[Scanned ''exit'', Scanned ''3'']"]
  by (simp add: scanning_world_A_def scanning_world_B_def sample_world_A_def
      sample_world_B_def scanned_digits_def skip_sign_def ascii_space_def decimal_digit_def
      iteration_A_def iteration_B_def)

lemma fmt_d_12: "fmt_d 12 = ''12''"
  by (simp add: fmt_d_def utoa.simps [of 12] utoa.simps [of 1] utoa.simps [of "Suc 0"] digit_def)

lemma fmt_d_3: "fmt_d 3 = ''3''"
  by (simp add: fmt_d_def utoa.simps [of 3] digit_def)

lemma Sscan_int_12abc: "Sscan_int ''12abc'' = Some 12"
  by (simp add: Sscan_int_def scanned_digits_def skip_sign_def negative_def ascii_space_def
      decimal_digit_def dec_val_def digit_val_def)

lemma Sscan_int_3_5: "Sscan_int ''3.5'' = Some 3"
  by (simp add: Sscan_int_def scanned_digits_def skip_sign_def negative_def ascii_space_def
      decimal_digit_def dec_val_def digit_val_def)

text \<open>
  Claim C7 as the specification words it speaks of every line that is not numeric.
  The lines \<^verbatim>\<open>12abc\<close> and \<^verbatim>\<open>3.5\<close> are not decimal integers and are not \<^verbatim>\<open>exit\<close>, yet
  \<^verbatim>\<open>fmt.Sscan\<close> reads 12 and 3 from them and the pass posts a request for that
  identifier, in both variants.
\<close>

theorem cli_posts_for_leading_numeral_counterexample:
  "\<not> decimal_integer ''12abc'' \<and> ''12abc'' \<noteq> ''exit'' \<and>
   Sscan_int ''12abc'' = Some 12 \<and>
   iteration_A scanning_world_A (Scanned ''12abc'') =
     ([Stdout ''ID: '',
       HttpPost ''http://localhost:8080/'' ''application/json''
         (query_pre_A @ ''12'' @ query_post_A),
       Logged (msg_post_failed @ ''connection refused'')], Continue) \<and>
   \<not> decimal_integer ''3.5'' \<and> ''3.5'' \<noteq> ''exit'' \<and>
   Sscan_int ''3.5'' = Some 3 \<and>
   iteration_B scanning_world_B (Scanned ''3.5'') =
     ([Stdout ''ID: '',
       HttpPost ''http://localhost:8080/'' ''application/json''
         (query_pre_B @ ''3'' @ query_post_B),
       Logged (msg_post_failed @ ''connection refused'')], Continue)"
  by (simp add: decimal_integer_def skip_sign_def decimal_digit_def Sscan_int_12abc
      Sscan_int_3_5 iteration_A_def iteration_B_def scanning_world_A_def scanning_world_B_def
      sample_world_A_def sample_world_B_def post_url_A_def post_url_B_def port_def Getenv_def
      fmt_d_12 fmt_d_3)

section \<open>Properties of the shutdown\<close>

lemma main_A_after_break:
  "snd (loop_A w stdin) \<Longrightarrow>
   trace (main_A w stdin) =
     Println msg_banner_A # fst (loop_A w stdin) @ fst (graceful_shutdown w) \<and>
   status (main_A w stdin) = Some (snd (graceful_shutdown w))"
  by (simp add: main_A_def split_beta)

lemma main_B_after_break:
  "snd (loop_B w stdin) \<Longrightarrow>
   trace (main_B w stdin) =
     Println msg_banner_B # fst (loop_B w stdin) @ fst (graceful_shutdown w) \<and>
   status (main_B w stdin) = Some (snd (graceful_shutdown w))"
  by (simp add: main_B_def split_beta)

text \<open>
  Claim C9. The shutdown is given a timeout of five seconds. When it returns an error,
  the error is logged and the process exits with status 1; when it returns none, the
  process reports the stop and exits with status 0. Once the loop has been left, a run
  of either variant ends with these events and with an exit status.
\<close>

theorem shutdown_reports_and_exits:
  "(\<forall>err. Shutdown w (5 * Second) = Some err \<longrightarrow>
      graceful_shutdown w =
        ([Println msg_stopping, ServerShutdown 5000000000,
          Logged (msg_shutdown_failed @ err)], 1)) \<and>
   (Shutdown w (5 * Second) = None \<longrightarrow>
      graceful_shutdown w =
        ([Println msg_stopping, ServerShutdown 5000000000, Println msg_stopped], 0)) \<and>
   (snd (loop_A wa stdin) \<longrightarrow>
      trace (main_A wa stdin) =
        Println msg_banner_A # fst (loop_A wa stdin) @ fst (graceful_shutdown wa) \<and>
      status (main_A wa stdin) = Some (snd (graceful_shutdown wa))) \<and>
   (snd (loop_B wb stdin) \<longrightarrow>
      trace (main_B wb stdin) =
        Println msg_banner_B # fst (loop_B wb stdin) @ fst (graceful_shutdown wb) \<and>
      status (main_B wb stdin) = Some (snd (graceful_shutdown wb)))"
  by (simp add: main_A_after_break main_B_after_break graceful_shutdown_def Second_def)

theorem shutdown_reports_and_exits_witness:
  "trace (main_A (sample_world_A None) [Scanned ''exit'']) =
     [Println msg_banner_A, Stdout ''ID: '', Println msg_bye, Println msg_stopping,
      ServerShutdown 5000000000,
      Logged (msg_shutdown_failed @ ''context deadline exceeded'')] \<and>
   status (main_A (sample_world_A None) [Scanned ''exit'']) = Some 1 \<and>
   status (main_B (sample_world_B None) [Scanned ''exit'']) = Some 1"
  using shutdown_reports_and_exits [of "sample_world_A None" "sample_world_A None"
      "[Scanned ''exit'']" "sample_world_B None"]
  by (simp add: sample_world_A_def sample_world_B_def iteration_A_def iteration_B_def
      main_A_def main_B_def graceful_shutdown_def Second_def)

end
